theory Spec2Isabelle
  imports Complex_Main "HOL-Library.Log_Nat"
begin

section \<open>JavaScript numbers\<close>

text \<open>
  Every \<^verbatim>\<open>number\<close> of the program is an IEEE 754 binary64 value. A finite value is
  represented by the real number it denotes; the two infinities and NaN are separate
  constructors. The two zeros are identified (the embedded code never divides by a
  computed zero and never inspects the sign of a zero, and \<^verbatim>\<open>===\<close> identifies them
  as well). Each arithmetic operation computes the exact result and rounds
  it to the nearest representable value, ties to even, as the standard prescribes.
\<close>

datatype number = Finite real | PosInf | NegInf | NaN

text \<open>\<open>expo x\<close> is the binary exponent of \<open>x \<noteq> 0\<close>: \<open>2 powi expo x \<le> \<bar>x\<bar> < 2 powi (expo x + 1)\<close>.\<close>

definition expo :: "real \<Rightarrow> int" where
  "expo x = (let a = \<bar>x\<bar> in
     if 1 \<le> a then bitlen \<lfloor>a\<rfloor> - 1 else - bitlen (\<lceil>1 / a\<rceil> - 1))"

text \<open>Rounding to the nearest integer, ties to the even one.\<close>

definition rne :: "real \<Rightarrow> int" where
  "rne q = (let f = \<lfloor>q\<rfloor>; r = q - of_int f in
     if r < 1 / 2 then f else if 1 / 2 < r then f + 1 else if even f then f else f + 1)"

text \<open>
  A binary format is given by its precision \<open>p\<close> (bits of significand) and its least and
  greatest exponent \<open>emin\<close>, \<open>emax\<close>. \<open>quantum p emin x\<close> is the spacing of the format's
  values around \<open>x\<close> (below \<open>2 powi emin\<close> the values are subnormal and equally spaced).
\<close>

definition quantum :: "nat \<Rightarrow> int \<Rightarrow> real \<Rightarrow> real" where
  "quantum p emin x = 2 powi (max (expo x) emin - int p + 1)"

definition nearest :: "nat \<Rightarrow> int \<Rightarrow> real \<Rightarrow> real" where
  "nearest p emin x =
     (if x = 0 then 0 else of_int (rne (x / quantum p emin x)) * quantum p emin x)"

definition round_fmt :: "nat \<Rightarrow> int \<Rightarrow> int \<Rightarrow> real \<Rightarrow> number" where
  "round_fmt p emin emax x = (let y = nearest p emin x in
     if y \<noteq> 0 \<and> emax < expo y then (if 0 < y then PosInf else NegInf) else Finite y)"

text \<open>\<open>fl q\<close> is the binary64 value of the exact quantity \<open>q\<close>; a decimal literal
  \<^verbatim>\<open>0.9\<close> of the source is \<open>fl 0.9\<close>.\<close>

definition fl :: "real \<Rightarrow> number" where
  "fl = round_fmt 53 (- 1022) 1023"

definition fl_nat :: "nat \<Rightarrow> number" where
  "fl_nat n = fl (of_nat n)"

instantiation number :: "{zero, one, plus, minus, uminus, times, inverse, ord}"
begin

definition zero_number :: number where
  "zero_number = Finite 0"

definition one_number :: number where
  "one_number = Finite 1"

fun uminus_number :: "number \<Rightarrow> number" where
  "uminus_number (Finite x) = Finite (- x)"
| "uminus_number PosInf = NegInf"
| "uminus_number NegInf = PosInf"
| "uminus_number NaN = NaN"

fun plus_number :: "number \<Rightarrow> number \<Rightarrow> number" where
  "plus_number (Finite x) (Finite y) = fl (x + y)"
| "plus_number NaN _ = NaN"
| "plus_number _ NaN = NaN"
| "plus_number PosInf NegInf = NaN"
| "plus_number NegInf PosInf = NaN"
| "plus_number PosInf _ = PosInf"
| "plus_number NegInf _ = NegInf"
| "plus_number (Finite x) PosInf = PosInf"
| "plus_number (Finite x) NegInf = NegInf"

definition minus_number :: "number \<Rightarrow> number \<Rightarrow> number" where
  "minus_number a b = a + (- b)"

fun times_number :: "number \<Rightarrow> number \<Rightarrow> number" where
  "times_number (Finite x) (Finite y) = fl (x * y)"
| "times_number NaN _ = NaN"
| "times_number _ NaN = NaN"
| "times_number PosInf (Finite y) = (if y = 0 then NaN else if 0 < y then PosInf else NegInf)"
| "times_number NegInf (Finite y) = (if y = 0 then NaN else if 0 < y then NegInf else PosInf)"
| "times_number (Finite x) PosInf = (if x = 0 then NaN else if 0 < x then PosInf else NegInf)"
| "times_number (Finite x) NegInf = (if x = 0 then NaN else if 0 < x then NegInf else PosInf)"
| "times_number PosInf PosInf = PosInf"
| "times_number NegInf NegInf = PosInf"
| "times_number PosInf NegInf = NegInf"
| "times_number NegInf PosInf = NegInf"

fun divide_number :: "number \<Rightarrow> number \<Rightarrow> number" where
  "divide_number (Finite x) (Finite y) =
     (if y = 0 then (if x = 0 then NaN else if 0 < x then PosInf else NegInf)
      else fl (x / y))"
| "divide_number NaN _ = NaN"
| "divide_number _ NaN = NaN"
| "divide_number (Finite x) PosInf = Finite 0"
| "divide_number (Finite x) NegInf = Finite 0"
| "divide_number PosInf (Finite y) = (if 0 \<le> y then PosInf else NegInf)"
| "divide_number NegInf (Finite y) = (if 0 \<le> y then NegInf else PosInf)"
| "divide_number PosInf PosInf = NaN"
| "divide_number PosInf NegInf = NaN"
| "divide_number NegInf PosInf = NaN"
| "divide_number NegInf NegInf = NaN"

definition inverse_number :: "number \<Rightarrow> number" where
  "inverse_number a = divide (Finite 1) a"

fun less_eq_number :: "number \<Rightarrow> number \<Rightarrow> bool" where
  "less_eq_number (Finite x) (Finite y) = (x \<le> y)"
| "less_eq_number NaN _ = False"
| "less_eq_number _ NaN = False"
| "less_eq_number NegInf _ = True"
| "less_eq_number _ PosInf = True"
| "less_eq_number PosInf (Finite y) = False"
| "less_eq_number PosInf NegInf = False"
| "less_eq_number (Finite x) NegInf = False"

fun less_number :: "number \<Rightarrow> number \<Rightarrow> bool" where
  "less_number (Finite x) (Finite y) = (x < y)"
| "less_number NaN _ = False"
| "less_number _ NaN = False"
| "less_number NegInf NegInf = False"
| "less_number NegInf _ = True"
| "less_number PosInf _ = False"
| "less_number (Finite x) PosInf = True"
| "less_number (Finite x) NegInf = False"

instance ..

end

text \<open>\<^verbatim>\<open>Math.min\<close> and \<^verbatim>\<open>Math.floor\<close>.\<close>

definition Math_min :: "number \<Rightarrow> number \<Rightarrow> number" where
  "Math_min a b = (if a = NaN \<or> b = NaN then NaN else if a \<le> b then a else b)"

fun Math_floor :: "number \<Rightarrow> number" where
  "Math_floor (Finite x) = Finite (of_int \<lfloor>x\<rfloor>)"
| "Math_floor v = v"


section \<open>The avatar store (state/avatarStore.ts)\<close>

datatype AvatarStatus = idle | processing | ready

record UploadedImage =
  image_id :: string
  name :: string
  src :: string
  image_size :: number

record FacialConfig =
  eyeSpacing :: number
  eyeSize :: number
  noseWidth :: number
  noseLength :: number
  lipFullness :: number
  earSize :: number

record HeadConfig =
  headHeight :: number
  headWidth :: number
  chinDefinition :: number
  jawWidth :: number
  neckThickness :: number

record SkinConfig =
  tone :: string
  roughness :: number
  sheen :: number
  subsurface :: number
  freckles :: number

datatype HairStyle = buzz | short | medium | long | braids

record HairConfig =
  style :: HairStyle
  color :: string
  hair_secondaryColor :: string
  hair_length :: number
  curl :: number
  volume :: number

record BodyConfig =
  height :: number
  weight :: number
  muscle :: number
  posture :: number
  shoulderWidth :: number

datatype Outfit = casual | athletic | formal | street

record ClothingConfig =
  outfit :: Outfit
  primaryColor :: string
  clothing_secondaryColor :: string
  fabricSheen :: number
  layering :: number

record AvatarParameters =
  facial :: FacialConfig
  head :: HeadConfig
  skin :: SkinConfig
  hair :: HairConfig
  body :: BodyConfig
  clothing :: ClothingConfig

record AvatarState =
  parameters :: AvatarParameters
  status :: AvatarStatus
  generationProgress :: number
  uploadedImages :: "UploadedImage list"
  lastSavedISO :: "string option"

definition defaultParameters :: AvatarParameters where
  "defaultParameters = \<lparr>
     facial = \<lparr> eyeSpacing = fl 0.5, eyeSize = fl 0.5, noseWidth = fl 0.5,
       noseLength = fl 0.5, lipFullness = fl 0.5, earSize = fl 0.5 \<rparr>,
     head = \<lparr> headHeight = fl 0.5, headWidth = fl 0.5, chinDefinition = fl 0.5,
       jawWidth = fl 0.5, neckThickness = fl 0.5 \<rparr>,
     skin = \<lparr> tone = ''#c58c6d'', roughness = fl 0.35, sheen = fl 0.4,
       subsurface = fl 0.6, freckles = fl 0.15 \<rparr>,
     hair = \<lparr> style = medium, color = ''#1f1a17'', hair_secondaryColor = ''#2f2723'',
       hair_length = fl 0.6, curl = fl 0.35, volume = fl 0.55 \<rparr>,
     body = \<lparr> height = fl 0.6, weight = fl 0.5, muscle = fl 0.6, posture = fl 0.5,
       shoulderWidth = fl 0.55 \<rparr>,
     clothing = \<lparr> outfit = athletic, primaryColor = ''#243447'',
       clothing_secondaryColor = ''#7e94ff'', fabricSheen = fl 0.45, layering = fl 0.4 \<rparr> \<rparr>"

text \<open>The store as \<^verbatim>\<open>create\<close> initialises it.\<close>

definition initialState :: AvatarState where
  "initialState = \<lparr> parameters = defaultParameters, status = idle,
     generationProgress = fl 0, uploadedImages = [], lastSavedISO = None \<rparr>"

definition setParameters :: "AvatarParameters \<Rightarrow> AvatarState \<Rightarrow> AvatarState" where
  "setParameters params state = state\<lparr> parameters := params, status := idle \<rparr>"

text \<open>
  \<^verbatim>\<open>setParameter(section, key, value)\<close> is typed so that \<^verbatim>\<open>key\<close> is a field of the
  section and \<^verbatim>\<open>value\<close> has that field's type. The well-typed triples are the values
  of \<open>FieldEdit\<close>: the outer constructor is the section, the inner one the key, its
  argument the value.
\<close>

datatype FacialEdit = EyeSpacing number | EyeSize number | NoseWidth number
  | NoseLength number | LipFullness number | EarSize number

datatype HeadEdit = HeadHeight number | HeadWidth number | ChinDefinition number
  | JawWidth number | NeckThickness number

datatype SkinEdit = Tone string | Roughness number | Sheen number | Subsurface number
  | Freckles number

datatype HairEdit = Style HairStyle | HairColor string | HairSecondaryColor string
  | HairLength number | Curl number | Volume number

datatype BodyEdit = Height number | Weight number | Muscle number | Posture number
  | ShoulderWidth number

datatype ClothingEdit = OutfitOf Outfit | PrimaryColor string | ClothingSecondaryColor string
  | FabricSheen number | Layering number

datatype FieldEdit = Facial FacialEdit | Head HeadEdit | Skin SkinEdit | Hair HairEdit
  | Body BodyEdit | Clothing ClothingEdit

fun setFacial :: "FacialEdit \<Rightarrow> FacialConfig \<Rightarrow> FacialConfig" where
  "setFacial (EyeSpacing v) c = c\<lparr> eyeSpacing := v \<rparr>"
| "setFacial (EyeSize v) c = c\<lparr> eyeSize := v \<rparr>"
| "setFacial (NoseWidth v) c = c\<lparr> noseWidth := v \<rparr>"
| "setFacial (NoseLength v) c = c\<lparr> noseLength := v \<rparr>"
| "setFacial (LipFullness v) c = c\<lparr> lipFullness := v \<rparr>"
| "setFacial (EarSize v) c = c\<lparr> earSize := v \<rparr>"

fun setHead :: "HeadEdit \<Rightarrow> HeadConfig \<Rightarrow> HeadConfig" where
  "setHead (HeadHeight v) c = c\<lparr> headHeight := v \<rparr>"
| "setHead (HeadWidth v) c = c\<lparr> headWidth := v \<rparr>"
| "setHead (ChinDefinition v) c = c\<lparr> chinDefinition := v \<rparr>"
| "setHead (JawWidth v) c = c\<lparr> jawWidth := v \<rparr>"
| "setHead (NeckThickness v) c = c\<lparr> neckThickness := v \<rparr>"

fun setSkin :: "SkinEdit \<Rightarrow> SkinConfig \<Rightarrow> SkinConfig" where
  "setSkin (Tone v) c = c\<lparr> tone := v \<rparr>"
| "setSkin (Roughness v) c = c\<lparr> roughness := v \<rparr>"
| "setSkin (Sheen v) c = c\<lparr> sheen := v \<rparr>"
| "setSkin (Subsurface v) c = c\<lparr> subsurface := v \<rparr>"
| "setSkin (Freckles v) c = c\<lparr> freckles := v \<rparr>"

fun setHair :: "HairEdit \<Rightarrow> HairConfig \<Rightarrow> HairConfig" where
  "setHair (Style v) c = c\<lparr> style := v \<rparr>"
| "setHair (HairColor v) c = c\<lparr> color := v \<rparr>"
| "setHair (HairSecondaryColor v) c = c\<lparr> hair_secondaryColor := v \<rparr>"
| "setHair (HairLength v) c = c\<lparr> hair_length := v \<rparr>"
| "setHair (Curl v) c = c\<lparr> curl := v \<rparr>"
| "setHair (Volume v) c = c\<lparr> volume := v \<rparr>"

fun setBody :: "BodyEdit \<Rightarrow> BodyConfig \<Rightarrow> BodyConfig" where
  "setBody (Height v) c = c\<lparr> height := v \<rparr>"
| "setBody (Weight v) c = c\<lparr> weight := v \<rparr>"
| "setBody (Muscle v) c = c\<lparr> muscle := v \<rparr>"
| "setBody (Posture v) c = c\<lparr> posture := v \<rparr>"
| "setBody (ShoulderWidth v) c = c\<lparr> shoulderWidth := v \<rparr>"

fun setClothing :: "ClothingEdit \<Rightarrow> ClothingConfig \<Rightarrow> ClothingConfig" where
  "setClothing (OutfitOf v) c = c\<lparr> outfit := v \<rparr>"
| "setClothing (PrimaryColor v) c = c\<lparr> primaryColor := v \<rparr>"
| "setClothing (ClothingSecondaryColor v) c = c\<lparr> clothing_secondaryColor := v \<rparr>"
| "setClothing (FabricSheen v) c = c\<lparr> fabricSheen := v \<rparr>"
| "setClothing (Layering v) c = c\<lparr> layering := v \<rparr>"

text \<open>The new \<^verbatim>\<open>parameters\<close> object: the old one with one section replaced by a copy
  in which one key is overwritten.\<close>

fun setField :: "FieldEdit \<Rightarrow> AvatarParameters \<Rightarrow> AvatarParameters" where
  "setField (Facial e) ps = ps\<lparr> facial := setFacial e (facial ps) \<rparr>"
| "setField (Head e) ps = ps\<lparr> head := setHead e (head ps) \<rparr>"
| "setField (Skin e) ps = ps\<lparr> skin := setSkin e (skin ps) \<rparr>"
| "setField (Hair e) ps = ps\<lparr> hair := setHair e (hair ps) \<rparr>"
| "setField (Body e) ps = ps\<lparr> body := setBody e (body ps) \<rparr>"
| "setField (Clothing e) ps = ps\<lparr> clothing := setClothing e (clothing ps) \<rparr>"

definition setParameter :: "FieldEdit \<Rightarrow> AvatarState \<Rightarrow> AvatarState" where
  "setParameter edit state = state\<lparr>
     parameters := setField edit (parameters state),
     status := (if status state = ready then idle else status state) \<rparr>"

definition setStatus :: "AvatarStatus \<Rightarrow> AvatarState \<Rightarrow> AvatarState" where
  "setStatus s state = state\<lparr> status := s \<rparr>"

definition setGenerationProgress :: "number \<Rightarrow> AvatarState \<Rightarrow> AvatarState" where
  "setGenerationProgress v state = state\<lparr> generationProgress := v \<rparr>"

definition resetParameters :: "AvatarState \<Rightarrow> AvatarState" where
  "resetParameters state = state\<lparr> parameters := defaultParameters, status := idle \<rparr>"

subsection \<open>generateAvatar and its timers\<close>

text \<open>
  \<^verbatim>\<open>generateAvatar\<close> changes the store and registers one timer per step with
  \<^verbatim>\<open>setTimeout\<close>. A registered timer is the pair of its delay (milliseconds) and the
  progress value its callback writes; \<open>timerCallback\<close> is the body of the callback.
  The function returns the new store together with the timers it registered, in the
  order of registration.
\<close>

type_synonym timer = "number \<times> number"

definition totalDuration :: number where
  "totalDuration = fl 3000"

definition steps :: "number list" where
  "steps = [fl 0, fl 18, fl 37, fl 58, fl 76, fl 92, fl 100]"

definition timerCallback :: "number \<Rightarrow> AvatarState \<Rightarrow> AvatarState" where
  "timerCallback v state = (let newStatus = (if fl 100 \<le> v then ready else status state)
     in state\<lparr> generationProgress := v, status := newStatus \<rparr>)"

definition stepDelay :: "nat \<Rightarrow> number" where
  "stepDelay index =
     Math_min (totalDuration * (fl_nat index / (fl_nat (length steps) - fl 1)))
       totalDuration"

definition scheduleSteps :: "timer list" where
  "scheduleSteps = map (\<lambda>index. (stepDelay index, steps ! index)) [0..<length steps]"

definition generateAvatar :: "AvatarState \<Rightarrow> AvatarState \<times> timer list" where
  "generateAvatar state =
     (if status state = processing then (state, [])
      else (state\<lparr> status := processing, generationProgress := fl 0 \<rparr>, scheduleSteps))"

text \<open>The stores seen after each of a list of timers has fired, in the order of the list.\<close>

fun fireTimers :: "timer list \<Rightarrow> AvatarState \<Rightarrow> AvatarState list" where
  "fireTimers [] state = []"
| "fireTimers ((d, v) # ts) state = timerCallback v state # fireTimers ts (timerCallback v state)"

subsection \<open>The timer queue\<close>

text \<open>
  \<^verbatim>\<open>setTimeout(callback, delay)\<close> makes a timer that is due \<^verbatim>\<open>delay\<close> milliseconds after the
  call. The pending timers form a queue in the order in which they will run: by due time,
  those due at the same time in the order of their registration. A pending timer is the
  pair of its due time and the progress value its callback writes. Each callback runs to
  its end before anything else touches the store. Nothing in the store cancels a timer.
\<close>

fun insertTimer :: "timer \<Rightarrow> timer list \<Rightarrow> timer list" where
  "insertTimer t [] = [t]"
| "insertTimer t (u # queue) =
     (if fst t < fst u then t # u # queue else u # insertTimer t queue)"

definition setTimeout :: "number \<Rightarrow> timer \<Rightarrow> timer list \<Rightarrow> timer list" where
  "setTimeout now t queue = insertTimer (now + fst t, snd t) queue"

text \<open>
  What a user of the page can do to the store: press Generate Avatar
  (\<^verbatim>\<open>generateAvatar\<close>), press Reset to Default (\<^verbatim>\<open>resetParameters\<close>), load a saved avatar
  (\<^verbatim>\<open>setParameters\<close>) or move a control (\<^verbatim>\<open>setParameter\<close>). Neither button is ever disabled.
  A page is the store together with the queue of pending timers; \<open>act now\<close> is an action
  performed at time \<open>now\<close>, \<open>elapse now\<close> runs the timers due by then, and a session is a
  list of actions with their times, in order.
\<close>

datatype Action = GenerateAvatar | ResetParameters | SetParameters AvatarParameters
  | SetParameter FieldEdit

type_synonym Page = "AvatarState \<times> timer list"

fun act :: "number \<Rightarrow> Action \<Rightarrow> Page \<Rightarrow> Page" where
  "act now GenerateAvatar (state, queue) =
     (fst (generateAvatar state),
      foldl (\<lambda>queue' t. setTimeout now t queue') queue (snd (generateAvatar state)))"
| "act now ResetParameters (state, queue) = (resetParameters state, queue)"
| "act now (SetParameters params) (state, queue) = (setParameters params state, queue)"
| "act now (SetParameter edit) (state, queue) = (setParameter edit state, queue)"

fun elapse :: "number \<Rightarrow> Page \<Rightarrow> Page" where
  "elapse now (state, queue) =
     (last (state # fireTimers (takeWhile (\<lambda>t. fst t \<le> now) queue) state),
      dropWhile (\<lambda>t. fst t \<le> now) queue)"

fun session :: "(number \<times> Action) list \<Rightarrow> Page \<Rightarrow> Page" where
  "session [] page = page"
| "session ((now, action) # rest) page = session rest (act now action (elapse now page))"


section \<open>The exporters (utils/exporters.ts)\<close>

subsection \<open>The scene graph as the exporters see it\<close>

text \<open>
  The interface of the three.js objects the exporters use. A \<^verbatim>\<open>BufferAttribute\<close> of
  item size 3 is the list of its items, \<^verbatim>\<open>count\<close> is its length; reading an item beyond
  the end yields \<^verbatim>\<open>undefined\<close> components, which all later arithmetic turns into NaN.
  A geometry offers its \<^verbatim>\<open>position\<close> and \<^verbatim>\<open>normal\<close> attributes, each possibly absent.
  An \<^verbatim>\<open>Object3D\<close> carries the \<^verbatim>\<open>isMesh\<close> flag, its geometry (absent on a group), its
  world matrix as \<^verbatim>\<open>root.updateWorldMatrix(true, true)\<close> leaves it, and its children.
  The matrix types and the library's own computations are parameters (\<open>Three\<close>).
\<close>

type_synonym Vector3 = "number \<times> number \<times> number"

type_synonym BufferAttribute = "Vector3 list"

record BufferGeometry =
  position :: "BufferAttribute option"
  normal :: "BufferAttribute option"

datatype ('g, 'm) Object3D =
  Object3D (isMesh: bool) (geometry: "'g option") (matrixWorld: 'm)
    (children: "('g, 'm) Object3D list")

record ('g, 'm, 'n) Three =
  toNonIndexed :: "'g \<Rightarrow> BufferGeometry"
  applyMatrix4 :: "Vector3 \<Rightarrow> 'm \<Rightarrow> Vector3"
  getNormalMatrix :: "'m \<Rightarrow> 'n"
  applyMatrix3 :: "Vector3 \<Rightarrow> 'n \<Rightarrow> Vector3"
  normalize :: "Vector3 \<Rightarrow> Vector3"

definition fromBufferAttribute :: "BufferAttribute \<Rightarrow> nat \<Rightarrow> Vector3" where
  "fromBufferAttribute attribute i =
     (if i < length attribute then attribute ! i else (NaN, NaN, NaN))"

datatype TypeError = TypeError

subsection \<open>formatNumber\<close>

text \<open>
  \<^verbatim>\<open>value.toFixed(6)\<close> prints the decimal with six fraction digits nearest to the exact
  value, a tie going away from zero; from \<open>10^21\<close> on, and for the infinities and NaN, it
  prints what \<^verbatim>\<open>String(value)\<close> prints. \<^verbatim>\<open>Number.parseFloat\<close> reads the text back as the
  nearest number, which for the output of \<^verbatim>\<open>String\<close> is the value itself.
\<close>

fun formatNumber :: "number \<Rightarrow> number" where
  "formatNumber (Finite x) =
     (if \<bar>x\<bar> < 10 ^ 21 then fl (sgn x * real_of_int \<lfloor>\<bar>x\<bar> * 10 ^ 6 + 1 / 2\<rfloor> / 10 ^ 6)
      else Finite x)"
| "formatNumber v = v"

subsection \<open>collectMeshes\<close>

text \<open>The loop over the vertices of one mesh; \<open>i\<close> is the loop counter, the pair the two
  arrays \<^verbatim>\<open>vertices\<close> and \<^verbatim>\<open>normals\<close> being filled.\<close>

function forEachVertex ::
  "('g, 'm, 'n) Three \<Rightarrow> 'm \<Rightarrow> 'n \<Rightarrow> BufferAttribute \<Rightarrow> BufferAttribute option \<Rightarrow> nat \<Rightarrow>
   number list \<times> number list \<Rightarrow> number list \<times> number list" where
  "forEachVertex three worldMatrix normalMatrix positionAttribute normalAttribute i
       (vertices, normals) =
     (if i < length positionAttribute then
        (let (x, y, z) = applyMatrix4 three (fromBufferAttribute positionAttribute i) worldMatrix;
             vertices' = vertices @ [formatNumber x, formatNumber y, formatNumber z];
             normals' = (case normalAttribute of
                 Some attribute \<Rightarrow>
                   (let (nx, ny, nz) = normalize three
                          (applyMatrix3 three (fromBufferAttribute attribute i) normalMatrix)
                    in normals @ [formatNumber nx, formatNumber ny, formatNumber nz])
               | None \<Rightarrow> normals @ [fl 0, fl 1, fl 0])
         in forEachVertex three worldMatrix normalMatrix positionAttribute normalAttribute
              (i + 1) (vertices', normals'))
      else (vertices, normals))"
  by pat_completeness auto
termination
  by (relation "measure (\<lambda>(three, worldMatrix, normalMatrix, positionAttribute, normalAttribute,
        i, arrays). length positionAttribute - i)") auto

declare forEachVertex.simps [simp del]

text \<open>The callback given to \<^verbatim>\<open>traverse\<close>. Reading \<^verbatim>\<open>count\<close> of an absent position
  attribute throws a \<^verbatim>\<open>TypeError\<close>.\<close>

definition visit ::
  "('g, 'm, 'n) Three \<Rightarrow> ('g, 'm) Object3D \<Rightarrow> number list \<times> number list \<Rightarrow>
   TypeError + number list \<times> number list" where
  "visit three child arrays =
     (if \<not> isMesh child then Inr arrays
      else case geometry child of
        None \<Rightarrow> Inr arrays
      | Some geometry' \<Rightarrow>
          (let worldMatrix = matrixWorld child;
               normalMatrix = getNormalMatrix three worldMatrix;
               tempGeometry = toNonIndexed three geometry'
           in case position tempGeometry of
                None \<Rightarrow> Inl TypeError
              | Some positionAttribute \<Rightarrow>
                  Inr (forEachVertex three worldMatrix normalMatrix positionAttribute
                         (normal tempGeometry) 0 arrays)))"

text \<open>\<^verbatim>\<open>Object3D.traverse\<close>: the callback on the object itself, then the traversal of each
  child in order. An exception ends it.\<close>

fun traverse ::
    "(('g, 'm) Object3D \<Rightarrow> 'a \<Rightarrow> TypeError + 'a) \<Rightarrow> ('g, 'm) Object3D \<Rightarrow> 'a \<Rightarrow> TypeError + 'a"
  and traverseChildren ::
    "(('g, 'm) Object3D \<Rightarrow> 'a \<Rightarrow> TypeError + 'a) \<Rightarrow> ('g, 'm) Object3D list \<Rightarrow> 'a \<Rightarrow>
     TypeError + 'a" where
  "traverse callback (Object3D m g w cs) acc =
     (case callback (Object3D m g w cs) acc of
        Inl e \<Rightarrow> Inl e
      | Inr acc' \<Rightarrow> traverseChildren callback cs acc')"
| "traverseChildren callback [] acc = Inr acc"
| "traverseChildren callback (c # cs) acc =
     (case traverse callback c acc of
        Inl e \<Rightarrow> Inl e
      | Inr acc' \<Rightarrow> traverseChildren callback cs acc')"

definition collectMeshes ::
  "('g, 'm, 'n) Three \<Rightarrow> ('g, 'm) Object3D \<Rightarrow> TypeError + number list \<times> number list" where
  "collectMeshes three root' = traverse (visit three) root' ([], [])"

subsection \<open>The vertices of a scene\<close>








subsection \<open>exportAvatarAsFBX\<close>

text \<open>
  The loop that fills \<^verbatim>\<open>polygonIndices\<close>. Its counter \<open>i\<close> is a number, compared with
  the number \<^verbatim>\<open>polygonCount\<close>; a run that never leaves the loop has the value \<open>None\<close>.
\<close>

partial_function (option) polygonLoop :: "number \<Rightarrow> number \<Rightarrow> number list \<Rightarrow> number list option"
  where
  "polygonLoop polygonCount i polygonIndices =
     (if i < polygonCount then
        (let base = i * fl 3
         in polygonLoop polygonCount (i + fl 1)
              (polygonIndices @ [base, base + fl 1, - (base + fl 2 + fl 1)]))
      else Some polygonIndices)"

text \<open>The three indices the loop pushes for polygon \<open>i\<close>.\<close>

definition polygonTriple :: "nat \<Rightarrow> number list" where
  "polygonTriple i = [Finite (real (3 * i)), Finite (real (3 * i + 1)), Finite (- real (3 * i + 2 + 1))]"

text \<open>Of the text the function builds, the three arrays it prints into the geometry
  node are kept: \<^verbatim>\<open>Vertices\<close>, \<^verbatim>\<open>PolygonVertexIndex\<close> and \<^verbatim>\<open>Normals\<close>.\<close>

record FBXGeometry =
  Vertices :: "number list"
  PolygonVertexIndex :: "number list"
  Normals :: "number list"

definition exportAvatarAsFBX ::
  "('g, 'm, 'n) Three \<Rightarrow> ('g, 'm) Object3D \<Rightarrow> (TypeError + FBXGeometry) option" where
  "exportAvatarAsFBX three group' =
     (case collectMeshes three group' of
        Inl e \<Rightarrow> Some (Inl e)
      | Inr (vertices, normals) \<Rightarrow>
          (let vertexCount = fl_nat (length vertices) / fl 3;
               polygonCount = Math_floor (vertexCount / fl 3)
           in case polygonLoop polygonCount (fl 0) [] of
                None \<Rightarrow> None
              | Some polygonIndices \<Rightarrow>
                  Some (Inr \<lparr> Vertices = vertices, PolygonVertexIndex = polygonIndices,
                    Normals = normals \<rparr>)))"

subsection \<open>exportAvatarAsGLTF\<close>

text \<open>
  The function loads \<^verbatim>\<open>GLTFExporter\<close> by a dynamic import and calls its \<^verbatim>\<open>parse\<close> with
  the group, two callbacks and an options object. The import and \<^verbatim>\<open>parse\<close> are the
  library's; what they do is a parameter: the import yields the module or fails with a
  value, and \<^verbatim>\<open>parse\<close>, for a scene and options, ends in one of four ways.
\<close>

record GLTFOptions =
  onlyVisible :: bool
  embedImages :: bool
  forceIndices :: bool

datatype ('b, 'j) GLTF = ArrayBuffer 'b | JSONObject 'j

text \<open>A value that is thrown or passed to \<^verbatim>\<open>onError\<close>: an \<^verbatim>\<open>ErrorEvent\<close> with its message,
  an \<^verbatim>\<open>Error\<close> with its message, or any other value.\<close>

datatype 'v Thrown = ErrorEvent string | Error string | Other 'v

datatype ('b, 'j, 'v) ParseOutcome =
  OnDone "('b, 'j) GLTF" | OnError "'v Thrown" | Throws "'v Thrown" | NoCallback

datatype ('p, 'v) Import = Module 'p | ImportFailed "'v Thrown"

datatype 'b BlobPart = Bytes 'b | Text string

record 'b Blob =
  part :: "'b BlobPart"
  type :: string

datatype ('a, 'v) Promise = Resolved 'a | Rejected "'v Thrown" | Pending

definition gltfOptions :: GLTFOptions where
  "gltfOptions = \<lparr> onlyVisible = True, embedImages = True, forceIndices = True \<rparr>"

text \<open>
  The configuration in the specification's words, for comparison: only visible nodes,
  images embedded, geometry forced to fully expanded, non-indexed triangle lists. An
  exporter so instructed is at least not told to generate indices.
\<close>

definition nonIndexedConfiguration :: "GLTFOptions \<Rightarrow> bool" where
  "nonIndexedConfiguration options =
     (onlyVisible options \<and> embedImages options \<and> \<not> forceIndices options)"

definition onDone :: "('j \<Rightarrow> string) \<Rightarrow> ('b, 'j) GLTF \<Rightarrow> 'b Blob" where
  "onDone stringify result = (case result of
       ArrayBuffer buffer \<Rightarrow> \<lparr> part = Bytes buffer, type = ''model/gltf-binary'' \<rparr>
     | JSONObject object \<Rightarrow> \<lparr> part = Text (stringify object), type = ''model/gltf+json'' \<rparr>)"

definition onError :: "'v Thrown \<Rightarrow> 'v Thrown" where
  "onError error = (case error of ErrorEvent message \<Rightarrow> Error message | _ \<Rightarrow> error)"

definition exportAvatarAsGLTF ::
  "('j \<Rightarrow> string) \<Rightarrow> ('s \<Rightarrow> GLTFOptions \<Rightarrow> ('b, 'j, 'v) ParseOutcome, 'v) Import \<Rightarrow> 's \<Rightarrow>
   ('b Blob, 'v) Promise" where
  "exportAvatarAsGLTF stringify imported group' =
     (case imported of
        ImportFailed error \<Rightarrow> Rejected error
      | Module parse \<Rightarrow>
          (case parse group' gltfOptions of
             OnDone result \<Rightarrow> Resolved (onDone stringify result)
           | OnError error \<Rightarrow> Rejected (onError error)
           | Throws error \<Rightarrow> Rejected error
           | NoCallback \<Rightarrow> Pending))"


text \<open>The invariant of the two arrays while \<^verbatim>\<open>collectMeshes\<close> fills them.\<close>

definition parallel :: "number list \<times> number list \<Rightarrow> bool" where
  "parallel arrays = (length (fst arrays) = length (snd arrays) \<and> 3 dvd length (fst arrays))"


section \<open>The scene (components/avatar/AvatarScene.tsx)\<close>

definition lerp :: "number \<Rightarrow> number \<Rightarrow> number \<Rightarrow> number" where
  "lerp value min' max' = min' + (max' - min') * value"

text \<open>The pairs of bounds \<open>(min, max)\<close> with which the file calls \<^verbatim>\<open>lerp\<close>, in the order of
  their first occurrence.\<close>

definition declaredRanges :: "(real \<times> real) list" where
  "declaredRanges =
     [(0.9, 1.2), (0.9, 1.3), (0.9, 1.1), (0.4, 0.85), (0.4, 1.4), (1.4, 1.9), (1.1, 1.6),
      (0.5, 0.9), (1.5, 1.9), (1.65, 2.0), (0.16, 0.24), (0.06, 0.09), (0.05, 0.12),
      (0.03, 0.08), (0.28, 0.42), (0.04, 0.09), (0.12, 0.25), (0.1, 0.16), (1.74, 2.08),
      (0.2, 0.45), (1.1, 1.35), (0.25, 0.7)]"

text \<open>\<^verbatim>\<open>Math.PI\<close>, the number nearest to \<open>\<pi>\<close>.\<close>

definition Math_PI :: number where
  "Math_PI = Finite (884279719003555 / 281474976710656)"

subsection \<open>Colours\<close>

text \<open>
  A three.js \<^verbatim>\<open>Color\<close> holds three channels. Reading a colour from a CSS string and
  \<^verbatim>\<open>offsetHSL\<close> are the library's and stay parameters' (\<open>ColorLib\<close>).
\<close>

datatype Color = RGB number number number

record ColorLib =
  ColorOf :: "string \<Rightarrow> Color"
  offsetHSL :: "Color \<Rightarrow> number \<Rightarrow> number \<Rightarrow> number \<Rightarrow> Color"

text \<open>
  Modelled from the spec: \<^verbatim>\<open>Color.lerp\<close> of three.js, which the repository calls and does
  not contain. The spec describes its result as a linear colour blend between the two
  colours with the given interpolation factor: each channel moves from the first
  colour's value towards the second's by the factor.
\<close>

fun Color_lerp :: "Color \<Rightarrow> Color \<Rightarrow> number \<Rightarrow> Color" where
  "Color_lerp (RGB r1 g1 b1) (RGB r2 g2 b2) alpha =
     RGB (r1 + (r2 - r1) * alpha) (g1 + (g2 - g1) * alpha) (b1 + (b2 - b1) * alpha)"

text \<open>A channel of a colour read from a CSS string is a number from 0 to 1.\<close>

fun channel :: "number \<Rightarrow> bool" where
  "channel (Finite x) = (0 \<le> x \<and> x \<le> 1 \<and> fl x = Finite x)"
| "channel v = False"

fun validColor :: "Color \<Rightarrow> bool" where
  "validColor (RGB r g b) = (channel r \<and> channel g \<and> channel b)"

subsection \<open>Elements\<close>

text \<open>
  What \<^verbatim>\<open>AvatarModel\<close> returns is a tree of JSX elements: a tag, the props in the
  order written, the child elements. A prop value is a number, an array of numbers, a
  string, a colour, a boolean, \<^verbatim>\<open>null\<close>, a reference to an object held by the component
  (a ref or the cloth geometry), or a material object given by its properties. The
  \<^verbatim>\<open>key\<close> of a list item is React's own and is left out.
\<close>

datatype propValue = Num number | Vec "number list" | Str string | Col Color | Flag bool | Null
  | Ref string | Object "(string \<times> propValue) list"

datatype element =
  Element (tag: string) (props: "(string \<times> propValue) list") (childElements: "element list")

definition skinMaterial :: "ColorLib \<Rightarrow> AvatarParameters \<Rightarrow> propValue" where
  "skinMaterial lib parameters' = Object
     [(''color'', Col (ColorOf lib (tone (skin parameters')))),
      (''roughness'', Num (roughness (skin parameters'))),
      (''metalness'', Num (fl 0.02)),
      (''reflectivity'', Num (fl 0.45)),
      (''clearcoat'', Num (sheen (skin parameters') * fl 0.6)),
      (''clearcoatRoughness'', Num (fl 0.3)),
      (''sheen'', Num (sheen (skin parameters'))),
      (''sheenColor'', Col (offsetHSL lib (ColorOf lib (tone (skin parameters')))
         (fl 0) (- fl 0.05) (fl 0.1))),
      (''transmission'', Num (subsurface (skin parameters') * fl 0.15))]"

definition headScale :: "AvatarParameters \<Rightarrow> number list" where
  "headScale parameters' =
     [lerp (headWidth (head parameters')) (fl 0.9) (fl 1.2),
      lerp (headHeight (head parameters')) (fl 0.9) (fl 1.3),
      lerp (chinDefinition (head parameters')) (fl 0.9) (fl 1.1)]"

definition hairHue :: "ColorLib \<Rightarrow> AvatarParameters \<Rightarrow> Color" where
  "hairHue lib parameters' = ColorOf lib (color (hair parameters'))"

definition secondaryHairColor :: "ColorLib \<Rightarrow> AvatarParameters \<Rightarrow> Color" where
  "secondaryHairColor lib parameters' = ColorOf lib (hair_secondaryColor (hair parameters'))"

subsection \<open>The hair layers\<close>

record HairLayer =
  radius :: number
  layer_height :: number
  offset :: number

definition layers :: nat where
  "layers = 6"

definition hairLayers :: "AvatarParameters \<Rightarrow> HairLayer list" where
  "hairLayers parameters' = map (\<lambda>index.
       (let t = fl_nat index / fl_nat layers in
        \<lparr> radius = lerp (volume (hair parameters')) (fl 0.4) (fl 0.85) * (fl 1 - t * fl 0.15),
          layer_height = lerp (hair_length (hair parameters')) (fl 0.4) (fl 1.4) *
            (if style (hair parameters') = buzz then fl 0.3 else fl 1 - t * fl 0.1),
          offset = t \<rparr>))
     [0..<layers]"

definition hairLayerMesh :: "ColorLib \<Rightarrow> AvatarParameters \<Rightarrow> HairLayer \<Rightarrow> element" where
  "hairLayerMesh lib parameters' layer = Element ''mesh''
     [(''position'', Vec [fl 0, (offset layer - fl 0.5) * hair_length (hair parameters'), fl 0]),
      (''scale'', Vec [radius layer, layer_height layer, radius layer])]
     [Element ''sphereGeometry'' [(''args'', Vec [fl 0.4, fl 48, fl 48])] [],
      Element ''meshPhysicalMaterial''
        [(''color'', Col (Color_lerp (hairHue lib parameters') (secondaryHairColor lib parameters')
            (offset layer * fl 0.6))),
         (''roughness'', Num (lerp (curl (hair parameters')) (fl 0.2) (fl 0.45))),
         (''metalness'', Num (fl 0.05)),
         (''clearcoat'', Num (fl 0.7)),
         (''clearcoatRoughness'', Num (fl 0.25))] []]"

definition buzzMesh :: "ColorLib \<Rightarrow> AvatarParameters \<Rightarrow> element" where
  "buzzMesh lib parameters' = Element ''mesh''
     [(''scale'', Vec [fl 0.95, fl 0.85, fl 0.95])]
     [Element ''sphereGeometry'' [(''args'', Vec [fl 0.42, fl 48, fl 48])] [],
      Element ''meshPhysicalMaterial''
        [(''color'', Col (hairHue lib parameters')),
         (''roughness'', Num (fl 0.35)),
         (''metalness'', Num (fl 0.02)),
         (''clearcoat'', Num (fl 0.5))] []]"

definition hairGroup :: "ColorLib \<Rightarrow> AvatarParameters \<Rightarrow> element" where
  "hairGroup lib parameters' = Element ''group''
     [(''ref'', Ref ''hairGroupRef''),
      (''position'', Vec [fl 0, lerp (height (body parameters')) (fl 1.74) (fl 2.08), fl 0])]
     (if style (hair parameters') \<noteq> buzz
      then map (hairLayerMesh lib parameters') (hairLayers parameters')
      else [buzzMesh lib parameters'])"


subsection \<open>AvatarModel\<close>

definition eyeMaterial :: element where
  "eyeMaterial = Element ''meshPhysicalMaterial''
     [(''color'', Str ''#1c1f25''),
      (''reflectivity'', Num (fl 0.95)),
      (''roughness'', Num (fl 0.18)),
      (''clearcoat'', Num (fl 0.9)),
      (''transmission'', Num (fl 0.12))] []"

definition skinPrimitive :: "ColorLib \<Rightarrow> AvatarParameters \<Rightarrow> element" where
  "skinPrimitive lib parameters' = Element ''primitive''
     [(''object'', skinMaterial lib parameters'), (''attach'', Str ''material'')] []"

definition torsoGroup :: "ColorLib \<Rightarrow> AvatarParameters \<Rightarrow> element" where
  "torsoGroup lib parameters' = Element ''group''
     [(''position'', Vec [fl 0, lerp (height (body parameters')) (fl 1.4) (fl 1.9), fl 0])]
     [Element ''mesh''
        [(''castShadow'', Flag True),
         (''position'', Vec [fl 0, fl 0.35, fl 0]),
         (''scale'', Vec [fl 1, fl 1.4, fl 0.8])]
        [Element ''capsuleGeometry''
           [(''args'', Vec [fl 0.38, lerp (height (body parameters')) (fl 1.1) (fl 1.6)])] [],
         Element ''meshPhysicalMaterial''
           [(''color'', Str (primaryColor (clothing parameters'))),
            (''roughness'', Num (lerp (fabricSheen (clothing parameters')) (fl 0.5) (fl 0.9))),
            (''metalness'', Num (fl 0.05)),
            (''clearcoat'', Num (fabricSheen (clothing parameters') * fl 0.6)),
            (''sheen'', Num (fabricSheen (clothing parameters') * fl 0.8)),
            (''sheenColor'',
               Col (ColorOf lib (clothing_secondaryColor (clothing parameters'))))] []]]"

definition headMesh :: "ColorLib \<Rightarrow> AvatarParameters \<Rightarrow> element" where
  "headMesh lib parameters' = Element ''mesh''
     [(''castShadow'', Flag True),
      (''position'', Vec [fl 0, lerp (height (body parameters')) (fl 1.5) (fl 1.9), fl 0]),
      (''scale'', Vec (headScale parameters'))]
     [Element ''sphereGeometry'' [(''args'', Vec [fl 0.4, fl 64, fl 64])] [],
      skinPrimitive lib parameters']"

definition faceGroup :: "ColorLib \<Rightarrow> AvatarParameters \<Rightarrow> element" where
  "faceGroup lib parameters' = Element ''group''
     [(''position'', Vec [fl 0, lerp (height (body parameters')) (fl 1.65) (fl 2.0), fl 0])]
     [Element ''mesh''
        [(''position'',
            Vec [- lerp (eyeSpacing (facial parameters')) (fl 0.16) (fl 0.24), fl 0.03, fl 0.36])]
        [Element ''sphereGeometry''
           [(''args'',
               Vec [lerp (eyeSize (facial parameters')) (fl 0.06) (fl 0.09), fl 32, fl 32])] [],
         eyeMaterial],
      Element ''mesh''
        [(''position'',
            Vec [lerp (eyeSpacing (facial parameters')) (fl 0.16) (fl 0.24), fl 0.03, fl 0.36])]
        [Element ''sphereGeometry''
           [(''args'',
               Vec [lerp (eyeSize (facial parameters')) (fl 0.06) (fl 0.09), fl 32, fl 32])] [],
         eyeMaterial],
      Element ''mesh''
        [(''position'', Vec [fl 0, - fl 0.02, fl 0.42]),
         (''rotation'', Vec [Math_PI * fl 0.5, fl 0, fl 0])]
        [Element ''cylinderGeometry''
           [(''args'',
               Vec [lerp (noseWidth (facial parameters')) (fl 0.05) (fl 0.12),
                    lerp (noseWidth (facial parameters')) (fl 0.03) (fl 0.08),
                    lerp (noseLength (facial parameters')) (fl 0.28) (fl 0.42),
                    fl 32])] [],
         skinPrimitive lib parameters'],
      Element ''mesh''
        [(''position'', Vec [fl 0, - fl 0.18, fl 0.33]),
         (''rotation'', Vec [fl 0, fl 0, fl 0])]
        [Element ''capsuleGeometry''
           [(''args'',
               Vec [lerp (lipFullness (facial parameters')) (fl 0.04) (fl 0.09),
                    lerp (lipFullness (facial parameters')) (fl 0.12) (fl 0.25)])] [],
         Element ''meshPhysicalMaterial''
           [(''color'', Col (offsetHSL lib (ColorOf lib (tone (skin parameters')))
               (fl 0.03) (fl 0.12) (fl 0.05))),
            (''roughness'', Num (fl 0.3)),
            (''clearcoat'', Num (fl 0.4)),
            (''sheen'', Num (fl 0.4))] []],
      Element ''mesh''
        [(''position'', Vec [- fl 0.4, fl 0.05, fl 0]),
         (''rotation'', Vec [fl 0, Math_PI * fl 0.6, fl 0])]
        [Element ''sphereGeometry''
           [(''args'',
               Vec [lerp (earSize (facial parameters')) (fl 0.1) (fl 0.16), fl 32, fl 32, fl 0,
                    Math_PI])] [],
         skinPrimitive lib parameters'],
      Element ''mesh''
        [(''position'', Vec [fl 0.4, fl 0.05, fl 0]),
         (''rotation'', Vec [fl 0, - Math_PI * fl 0.6, fl 0])]
        [Element ''sphereGeometry''
           [(''args'',
               Vec [lerp (earSize (facial parameters')) (fl 0.1) (fl 0.16), fl 32, fl 32, fl 0,
                    Math_PI])] [],
         skinPrimitive lib parameters']]"

definition clothFloat :: "ColorLib \<Rightarrow> AvatarParameters \<Rightarrow> element" where
  "clothFloat lib parameters' = Element ''Float''
     [(''floatingRange'', Vec [fl 0.02, fl 0.06]),
      (''rotationIntensity'', Num (fl 0.2)),
      (''speed'', Num (fl 1.2 + volume (hair parameters') * fl 0.5))]
     [Element ''mesh''
        [(''position'', Vec [fl 0, lerp (height (body parameters')) (fl 1.1) (fl 1.35), fl 0]),
         (''rotation'', Vec [- Math_PI / fl 2, fl 0, fl 0]),
         (''geometry'', Ref ''clothGeometry''),
         (''castShadow'', Flag True),
         (''receiveShadow'', Flag True)]
        [Element ''meshPhysicalMaterial''
           [(''color'', Str (clothing_secondaryColor (clothing parameters'))),
            (''transparent'', Flag True),
            (''opacity'', Num (fl 0.95)),
            (''roughness'', Num (lerp (fabricSheen (clothing parameters')) (fl 0.25) (fl 0.7))),
            (''metalness'', Num (fl 0.1)),
            (''clearcoat'', Num (fl 0.6)),
            (''sheen'', Num (fl 0.6)),
            (''sheenColor'', Col (ColorOf lib (primaryColor (clothing parameters'))))] []]]"

definition AvatarModel :: "ColorLib \<Rightarrow> AvatarParameters \<Rightarrow> element" where
  "AvatarModel lib parameters' = Element ''group''
     [(''ref'', Ref ''rootRef''),
      (''position'', Vec [fl 0, - fl 0.6 + posture (body parameters') * fl 0.1, fl 0]),
      (''dispose'', Null)]
     [torsoGroup lib parameters',
      headMesh lib parameters',
      faceGroup lib parameters',
      hairGroup lib parameters',
      clothFloat lib parameters']"

subsection \<open>Looking into a scene\<close>

text \<open>The elements of a tree that carry a given ref, the tree's root first; the meshes
  placed directly under the hair group; the \<^verbatim>\<open>color\<close> of a mesh's material.\<close>

fun withRef :: "string \<Rightarrow> element \<Rightarrow> element list" where
  "withRef r (Element t ps cs) =
     (if map_of ps ''ref'' = Some (Ref r) then [Element t ps cs] else [])
       @ concat (map (withRef r) cs)"

definition hairPrimitives :: "element \<Rightarrow> element list" where
  "hairPrimitives scene =
     concat (map (\<lambda>g. filter (\<lambda>e. tag e = ''mesh'') (childElements g))
       (withRef ''hairGroupRef'' scene))"

definition materialColor :: "element \<Rightarrow> propValue option" where
  "materialColor mesh =
     (case filter (\<lambda>e. tag e = ''meshPhysicalMaterial'') (childElements mesh) of
        [] \<Rightarrow> None
      | material # _ \<Rightarrow> map_of (props material) ''color'')"

subsection \<open>The frame callback\<close>

text \<open>
  \<^verbatim>\<open>Math.sin\<close>, \<^verbatim>\<open>Math.cos\<close> and the geometry's \<^verbatim>\<open>computeVertexNormals\<close> (from the
  position array to the normal array) are parameters (\<open>FrameLib\<close>).

  A \<^verbatim>\<open>Float32Array\<close> is the list of its elements. A store rounds the number to single
  precision (\<open>fround\<close>) and is ignored beyond the end; a read beyond the end is
  \<^verbatim>\<open>undefined\<close>, NaN in arithmetic.
\<close>

record FrameLib =
  Math_sin :: "number \<Rightarrow> number"
  Math_cos :: "number \<Rightarrow> number"
  computeVertexNormals :: "number list \<Rightarrow> number list"

fun fround :: "number \<Rightarrow> number" where
  "fround (Finite x) = round_fmt 24 (- 126) 127 x"
| "fround v = v"

definition element_at :: "number list \<Rightarrow> nat \<Rightarrow> number" where
  "element_at array i = (if i < length array then array ! i else NaN)"

text \<open>
  \<^verbatim>\<open>useClothGeometry\<close>: from the position array of the new \<^verbatim>\<open>PlaneGeometry\<close> (the
  library's, a parameter), the pair of the live position array and of \<^verbatim>\<open>basePositions\<close>,
  its copy made by \<^verbatim>\<open>Float32Array.from\<close>.
\<close>

definition useClothGeometry :: "number list \<Rightarrow> number list \<times> number list" where
  "useClothGeometry planePositions = (planePositions, map fround planePositions)"

text \<open>What a frame can change: the rotation of the hair group (absent while
  \<^verbatim>\<open>hairGroupRef.current\<close> is null) and the position attribute and normals of the cloth.\<close>

record FrameState =
  hairRotation :: "Vector3 option"
  positionArray :: "number list"
  needsUpdate :: bool
  normalArray :: "number list"

function clothLoop ::
  "FrameLib \<Rightarrow> number \<Rightarrow> AvatarParameters \<Rightarrow> number \<Rightarrow> number list \<Rightarrow> nat \<Rightarrow> number list \<Rightarrow>
   number list" where
  "clothLoop lib elapsed parameters' windAmplitude basePositions i array =
     (if i < length array then
        (let baseX = element_at basePositions i;
             baseY = element_at basePositions (i + 1);
             wave = Math_sin lib (baseY * fl 4 + elapsed * fl 2.1) * fl 0.02
                  + Math_cos lib (baseX * fl 4 + elapsed * fl 1.6) * fl 0.02;
             dynamicOffset = Math_sin lib (elapsed * fl 3 + baseX * fl 2.3) * windAmplitude
                  * (fl 0.3 + fabricSheen (clothing parameters'))
         in clothLoop lib elapsed parameters' windAmplitude basePositions (i + 3)
              (array[i + 2 := fround (element_at basePositions (i + 2) + wave + dynamicOffset)]))
      else array)"
  by pat_completeness auto
termination
  by (relation "measure (\<lambda>(lib, elapsed, parameters', windAmplitude, basePositions, i, array).
        length array - i)") auto

declare clothLoop.simps [simp del]

definition useFrame ::
  "FrameLib \<Rightarrow> number \<Rightarrow> AvatarParameters \<Rightarrow> number list \<Rightarrow> FrameState \<Rightarrow> FrameState" where
  "useFrame lib elapsed parameters' basePositions state =
     (let windAmplitude = fl 0.15 + layering (clothing parameters') * fl 0.2;
          hairFlex = fl 0.08 + hair_length (hair parameters') * fl 0.18;
          curliness = fl 0.4 + curl (hair parameters') * fl 0.9;
          state' = (case hairRotation state of
              None \<Rightarrow> state
            | Some (x, y, z) \<Rightarrow> state\<lparr> hairRotation := Some
                (Math_cos lib (elapsed * fl 1.2) * (hairFlex * fl 0.5),
                 y,
                 Math_sin lib (elapsed * (fl 1.4 + curliness)) * hairFlex) \<rparr>)
      in if basePositions \<noteq> [] then
           (let array = clothLoop lib elapsed parameters' windAmplitude basePositions 0
                  (positionArray state')
            in state'\<lparr> positionArray := array, needsUpdate := True,
                 normalArray := computeVertexNormals lib array \<rparr>)
         else state')"

text \<open>The state after the frames of a history, a list of elapsed times and parameter
  sets, oldest first.\<close>

fun frames ::
  "FrameLib \<Rightarrow> (number \<times> AvatarParameters) list \<Rightarrow> number list \<Rightarrow> FrameState \<Rightarrow> FrameState"
  where
  "frames lib [] basePositions state = state"
| "frames lib ((elapsed, parameters') # history) basePositions state =
     frames lib history basePositions (useFrame lib elapsed parameters' basePositions state)"


subsection \<open>What a frame writes\<close>

text \<open>The number the loop stores at index \<open>i + 2\<close> when its counter is \<open>i\<close>.\<close>

definition clothZ ::
  "FrameLib \<Rightarrow> number \<Rightarrow> AvatarParameters \<Rightarrow> number \<Rightarrow> number list \<Rightarrow> nat \<Rightarrow> number" where
  "clothZ lib elapsed parameters' windAmplitude basePositions i =
     fround (element_at basePositions (i + 2)
       + (Math_sin lib (element_at basePositions (i + 1) * fl 4 + elapsed * fl 2.1) * fl 0.02
          + Math_cos lib (element_at basePositions i * fl 4 + elapsed * fl 1.6) * fl 0.02)
       + Math_sin lib (elapsed * fl 3 + element_at basePositions i * fl 2.3) * windAmplitude
          * (fl 0.3 + fabricSheen (clothing parameters')))"

text \<open>Two position arrays agree when they have the same length and the same x and y
  components. Two states are similar when their position arrays agree, their hair groups
  are both absent or have the same rotation about y and, in case the rest buffer is empty
  (the cloth is then never touched), their cloth is the same.\<close>

definition agree :: "number list \<Rightarrow> number list \<Rightarrow> bool" where
  "agree a b = (length a = length b \<and> (\<forall>j < length a. j mod 3 \<noteq> 2 \<longrightarrow> a ! j = b ! j))"

definition similar :: "number list \<Rightarrow> FrameState \<Rightarrow> FrameState \<Rightarrow> bool" where
  "similar basePositions s s' =
     (agree (positionArray s) (positionArray s') \<and>
      (basePositions = [] \<longrightarrow> positionArray s = positionArray s' \<and>
         needsUpdate s = needsUpdate s' \<and> normalArray s = normalArray s') \<and>
      (case hairRotation s of
         None \<Rightarrow> hairRotation s' = None
       | Some (x, y, z) \<Rightarrow> (\<exists>x' z'. hairRotation s' = Some (x', y, z'))))"


section \<open>Example inputs\<close>

text \<open>A library whose matrices are trivial and a scene of one group holding one mesh,
  a single triangle without normals.\<close>

definition exampleThree :: "(BufferGeometry, unit, unit) Three" where
  "exampleThree = \<lparr> toNonIndexed = (\<lambda>g. g), applyMatrix4 = (\<lambda>v m. v),
     getNormalMatrix = (\<lambda>m. m), applyMatrix3 = (\<lambda>v n. v), normalize = (\<lambda>v. v) \<rparr>"

definition exampleTriangle :: "(BufferGeometry, unit) Object3D" where
  "exampleTriangle = Object3D False None ()
     [Object3D True
        (Some \<lparr> position = Some [(Finite 0, Finite 0, Finite 0), (Finite 1, Finite 0, Finite 0),
                   (Finite 0, Finite 1, Finite 0)],
                normal = None \<rparr>) () []]"


text \<open>A serialization routine that reports an \<^verbatim>\<open>ErrorEvent\<close> when told to force
  indices and otherwise never calls back.\<close>

definition exampleParse :: "unit \<Rightarrow> GLTFOptions \<Rightarrow> (nat list, unit, unit) ParseOutcome" where
  "exampleParse scene options =
     (if forceIndices options then OnError (ErrorEvent ''failed'') else NoCallback)"

definition exampleStringify :: "unit \<Rightarrow> string" where
  "exampleStringify object = ''{}''"

text \<open>A colour library that knows two colours.\<close>

definition exampleColorLib :: ColorLib where
  "exampleColorLib = \<lparr>
     ColorOf = (\<lambda>s. if s = ''#2f2723'' then RGB (Finite (1 / 4)) (Finite (1 / 8)) (Finite (1 / 8))
                  else RGB (Finite (1 / 8)) (Finite (1 / 8)) (Finite (1 / 16))),
     offsetHSL = (\<lambda>c h s l. c) \<rparr>"

text \<open>A library for the frame callback, and a cloth of one vertex whose live z component
  is stale.\<close>

definition exampleFrameLib :: FrameLib where
  "exampleFrameLib = \<lparr> Math_sin = (\<lambda>x. Finite 0), Math_cos = (\<lambda>x. Finite 1),
     computeVertexNormals = (\<lambda>array. array) \<rparr>"

definition exampleFrameState :: FrameState where
  "exampleFrameState = \<lparr> hairRotation = Some (Finite 0, Finite 0, Finite 0),
     positionArray = [Finite 0, Finite 0, Finite 5], needsUpdate = False, normalArray = [] \<rparr>"


section \<open>Number arithmetic\<close>

subsection \<open>Evaluation\<close>

lemma bitlen_numeral: "bitlen (numeral n) = bitlen (numeral n div 2) + 1"
  by (subst compute_bitlen) simp

lemma bitlen_one: "bitlen 1 = 1"
  by (subst compute_bitlen) simp

lemmas fl_eval = fl_def fl_nat_def round_fmt_def nearest_def quantum_def expo_def rne_def
  Let_def bitlen_numeral bitlen_one minus_number_def Math_min_def

lemma fl_0: "fl 0 = Finite 0"
  by (simp add: fl_eval)

lemma fl_100: "fl 100 = Finite 100"
  by (simp add: fl_eval)


subsection \<open>The binary exponent\<close>

lemma pow2_le_real: "(2::int) ^ k \<le> n \<Longrightarrow> (2::real) ^ k \<le> real_of_int n"
  using of_int_le_iff [where ?'a = real, of "2 ^ k" n] by simp

lemma pow2_ge_real: "n \<le> (2::int) ^ k \<Longrightarrow> real_of_int n \<le> (2::real) ^ k"
  using of_int_le_iff [where ?'a = real, of n "2 ^ k"] by simp

lemma expo_bounds:
  assumes "x \<noteq> 0"
  shows "2 powi expo x \<le> \<bar>x\<bar>" and "\<bar>x\<bar> < 2 powi (expo x + 1)"
proof -
  define a where "a = \<bar>x\<bar>"
  have a: "0 < a" using assms by (simp add: a_def)
  have "2 powi expo x \<le> a \<and> a < 2 powi (expo x + 1)"
  proof (cases "1 \<le> a")
    case True
    define n where "n = \<lfloor>a\<rfloor>"
    have n: "0 < n" using True by (simp add: n_def)
    from bitlen_bounds[OF n] have lo: "2 ^ nat (bitlen n - 1) \<le> n" and hi: "n < 2 ^ nat (bitlen n)"
      by simp_all
    have b: "1 \<le> bitlen n" using n by (simp add: bitlen_alt_def)
    have e: "expo x = bitlen n - 1"
      using True by (simp add: expo_def a_def n_def Let_def)
    have "(2::real) ^ nat (bitlen n - 1) \<le> real_of_int n" using lo by (rule pow2_le_real)
    moreover have "real_of_int n \<le> a" by (simp add: n_def)
    ultimately have "(2::real) ^ nat (bitlen n - 1) \<le> a" by linarith
    then have 1: "2 powi (bitlen n - 1) \<le> a"
      using b by (simp add: power_int_def)
    have "n + 1 \<le> 2 ^ nat (bitlen n)" using hi by simp
    then have "real_of_int (n + 1) \<le> (2::real) ^ nat (bitlen n)" by (rule pow2_ge_real)
    moreover have "a < real_of_int (n + 1)" by (simp add: n_def)
    ultimately have "a < (2::real) ^ nat (bitlen n)" by linarith
    then have 2: "a < 2 powi (bitlen n)"
      using b by (simp add: power_int_def)
    from 1 2 show ?thesis by (simp add: e)
  next
    case False
    define n where "n = \<lceil>1 / a\<rceil> - 1"
    have inv: "1 < 1 / a" using False a by simp
    then have n: "0 < n" unfolding n_def by linarith
    have na: "real_of_int n < 1 / a" "1 / a \<le> real_of_int n + 1"
      unfolding n_def by linarith+
    from bitlen_bounds[OF n] have lo: "2 ^ nat (bitlen n - 1) \<le> n" and hi: "n < 2 ^ nat (bitlen n)"
      by simp_all
    have b: "1 \<le> bitlen n" using n by (simp add: bitlen_alt_def)
    have e: "expo x = - bitlen n"
      using False by (simp add: expo_def a_def n_def Let_def)
    have "n + 1 \<le> 2 ^ nat (bitlen n)" using hi by simp
    then have "real_of_int (n + 1) \<le> (2::real) ^ nat (bitlen n)" by (rule pow2_ge_real)
    then have "1 / a \<le> 2 ^ nat (bitlen n)" using na by simp
    then have "1 / 2 ^ nat (bitlen n) \<le> a"
      using a by (simp add: field_simps)
    then have 1: "2 powi (- bitlen n) \<le> a"
      using b by (simp add: power_int_def inverse_eq_divide power_one_over)
    have "(2::real) ^ nat (bitlen n - 1) \<le> real_of_int n" using lo by (rule pow2_le_real)
    then have "(2::real) ^ nat (bitlen n - 1) < 1 / a" using na by linarith
    then have "a < 1 / 2 ^ nat (bitlen n - 1)"
      using a by (simp add: field_simps)
    moreover have "2 powi (- bitlen n + 1) = (1::real) / 2 ^ nat (bitlen n - 1)"
      using b by (simp add: power_int_def inverse_eq_divide power_one_over)
    ultimately have 2: "a < 2 powi (- bitlen n + 1)" by simp
    from 1 2 show ?thesis by (simp add: e)
  qed
  then show "2 powi expo x \<le> \<bar>x\<bar>" and "\<bar>x\<bar> < 2 powi (expo x + 1)"
    by (simp_all add: a_def)
qed

lemma pow2_less_imp: "(2::real) powi m < 2 powi n \<Longrightarrow> m < n"
  using power_int_increasing [of n m "2::real"] by (cases "m < n") auto

lemma expo_unique:
  assumes "2 powi k \<le> \<bar>x\<bar>" and "\<bar>x\<bar> < 2 powi (k + 1)"
  shows "expo x = k"
proof -
  have "(0::real) < 2 powi k" by simp
  with assms(1) have "0 < \<bar>x\<bar>" by linarith
  then have x: "x \<noteq> 0" by auto
  from expo_bounds[OF x] assms
  have "(2::real) powi expo x < 2 powi (k + 1)" and "(2::real) powi k < 2 powi (expo x + 1)"
    by linarith+
  then have "expo x < k + 1" and "k < expo x + 1"
    by (auto dest: pow2_less_imp)
  then show ?thesis by simp
qed

lemma expo_mono:
  assumes "x \<noteq> 0" and "\<bar>x\<bar> \<le> \<bar>y\<bar>"
  shows "expo x \<le> expo y"
proof -
  have y: "y \<noteq> 0" using assms by auto
  from expo_bounds(1)[OF assms(1)] expo_bounds(2)[OF y] assms(2)
  have "(2::real) powi expo x < 2 powi (expo y + 1)" by linarith
  then have "expo x < expo y + 1"
    by (rule pow2_less_imp)
  then show ?thesis by simp
qed

lemma expo_minus [simp]: "expo (- x) = expo x"
  by (simp add: expo_def)

lemma rne_of_int [simp]: "rne (of_int n) = n"
  by (simp add: rne_def)

lemma rne_mono: "q \<le> q' \<Longrightarrow> rne q \<le> rne q'"
proof -
  assume le: "q \<le> q'"
  have f: "\<lfloor>q\<rfloor> \<le> \<lfloor>q'\<rfloor>" using le by (rule floor_mono)
  have 1: "\<lfloor>q\<rfloor> \<le> rne q" "rne q \<le> \<lfloor>q\<rfloor> + 1" for q
    by (simp_all add: rne_def Let_def)
  show ?thesis
  proof (cases "\<lfloor>q\<rfloor> = \<lfloor>q'\<rfloor>")
    case True
    then show ?thesis using le by (auto simp: rne_def Let_def)
  next
    case False
    then have "\<lfloor>q\<rfloor> + 1 \<le> \<lfloor>q'\<rfloor>" using f by simp
    then show ?thesis using 1(2)[of q] 1(1)[of q'] by linarith
  qed
qed

lemma rne_minus: "rne (- q) = - rne q"
proof (cases "q \<in> \<int>")
  case True
  then obtain n where "q = of_int n" by (auto elim: Ints_cases)
  then show ?thesis by (simp flip: of_int_minus)
next
  case False
  then have "q \<noteq> of_int \<lfloor>q\<rfloor>" by (metis Ints_of_int)
  then have f: "\<lfloor>- q\<rfloor> = - \<lfloor>q\<rfloor> - 1"
    by (simp add: floor_minus ceiling_altdef)
  have r: "q - of_int \<lfloor>q\<rfloor> \<noteq> 0" using False
    by (metis Ints_of_int eq_iff_diff_eq_0)
  show ?thesis
    unfolding rne_def Let_def f using r by (auto simp: algebra_simps)
qed

lemma rne_nonneg: "0 \<le> q \<Longrightarrow> 0 \<le> rne q"
  using rne_mono[of 0 q] rne_of_int[of 0] by simp

subsection \<open>Rounding is monotone\<close>

lemma pow2_add: "(2::real) powi a * 2 powi b = 2 powi (a + b)"
  by (simp add: power_int_add)

lemma quantum_pos [simp]: "0 < quantum p emin x"
  by (simp add: quantum_def)

lemma quantum_nonneg [simp]: "0 \<le> quantum p emin x"
  by (simp add: quantum_def)

lemma quantum_minus [simp]: "quantum p emin (- x) = quantum p emin x"
  by (simp add: quantum_def)

lemma nearest_0 [simp]: "nearest p emin 0 = 0"
  by (simp add: nearest_def)

lemma nearest_minus: "nearest p emin (- x) = - nearest p emin x"
  by (simp add: nearest_def rne_minus flip: minus_divide_left)

lemma nearest_nonneg:
  assumes "0 \<le> x"
  shows "0 \<le> nearest p emin x"
proof -
  have "0 \<le> x / quantum p emin x" using assms by simp
  then have "0 \<le> rne (x / quantum p emin x)" by (rule rne_nonneg)
  then show ?thesis by (simp add: nearest_def)
qed

lemma rne_pow2 [simp]: "rne (2 ^ n) = 2 ^ n"
  using rne_of_int [of "2 ^ n"] by simp

lemma quantum_scale: "2 ^ p * quantum p emin x = 2 powi (max (expo x) emin + 1)"
proof -
  have "(2::real) ^ p * quantum p emin x = 2 powi int p * 2 powi (max (expo x) emin - int p + 1)"
    by (simp add: quantum_def)
  also have "\<dots> = 2 powi (max (expo x) emin + 1)"
    by (simp only: pow2_add) simp
  finally show ?thesis .
qed

lemma quantum_scale_half:
  assumes "1 \<le> p"
  shows "2 ^ (p - 1) * quantum p emin x = 2 powi (max (expo x) emin)"
proof -
  have "(2::real) ^ (p - 1) * quantum p emin x
      = 2 powi int (p - 1) * 2 powi (max (expo x) emin - int p + 1)"
    by (simp add: quantum_def)
  also have "\<dots> = 2 powi (int (p - 1) + (max (expo x) emin - int p + 1))"
    by (simp only: pow2_add)
  also have "int (p - 1) + (max (expo x) emin - int p + 1) = max (expo x) emin"
    using assms by simp
  finally show ?thesis .
qed

text \<open>The scaled value lies below \<open>2 ^ p\<close>, and in the normal range at or above \<open>2 ^ (p - 1)\<close>.\<close>

lemma scaled_upper:
  assumes "0 < x"
  shows "x / quantum p emin x < 2 ^ p"
proof -
  have x: "x \<noteq> 0" using assms by simp
  have "x < 2 powi (expo x + 1)" using expo_bounds(2)[OF x] assms by simp
  also have "\<dots> \<le> 2 powi (max (expo x) emin + 1)"
    by (rule power_int_increasing) simp_all
  also have "\<dots> = 2 ^ p * quantum p emin x"
    by (simp only: quantum_scale)
  finally have "x < 2 ^ p * quantum p emin x" .
  then show ?thesis by (simp add: pos_divide_less_eq)
qed

lemma scaled_lower:
  assumes "0 < x" and "emin \<le> expo x" and "1 \<le> p"
  shows "2 ^ (p - 1) \<le> x / quantum p emin x"
proof -
  have x: "x \<noteq> 0" using assms by simp
  have m: "max (expo x) emin = expo x" using assms(2) by simp
  have "2 ^ (p - 1) * quantum p emin x = 2 powi (expo x)"
    using quantum_scale_half[OF assms(3), of emin x] by (simp only: m)
  also have "\<dots> \<le> x" using expo_bounds(1)[OF x] assms by simp
  finally have "2 ^ (p - 1) * quantum p emin x \<le> x" .
  then show ?thesis by (simp add: pos_le_divide_eq)
qed

lemma nearest_upper:
  assumes "0 < x"
  shows "nearest p emin x \<le> 2 powi (max (expo x) emin + 1)"
proof -
  have "x / quantum p emin x \<le> real_of_int (2 ^ p)"
    using scaled_upper[OF assms, of p emin] by simp
  from rne_mono[OF this] have "rne (x / quantum p emin x) \<le> 2 ^ p" by simp
  then have "real_of_int (rne (x / quantum p emin x)) \<le> 2 ^ p" by (rule pow2_ge_real)
  then have "nearest p emin x \<le> 2 ^ p * quantum p emin x"
    using assms by (simp add: nearest_def)
  also have "\<dots> = 2 powi (max (expo x) emin + 1)"
    by (rule quantum_scale)
  finally show ?thesis .
qed

lemma nearest_lower:
  assumes "0 < x" and "emin \<le> expo x" and "1 \<le> p"
  shows "2 powi (expo x) \<le> nearest p emin x"
proof -
  have m: "max (expo x) emin = expo x" using assms(2) by simp
  have "real_of_int (2 ^ (p - 1)) \<le> x / quantum p emin x"
    using scaled_lower[OF assms] by simp
  from rne_mono[OF this] have "2 ^ (p - 1) \<le> rne (x / quantum p emin x)" by simp
  then have "2 ^ (p - 1) \<le> real_of_int (rne (x / quantum p emin x))" by (rule pow2_le_real)
  then have "2 ^ (p - 1) * quantum p emin x \<le> nearest p emin x"
    using assms by (simp add: nearest_def)
  moreover have "2 ^ (p - 1) * quantum p emin x = 2 powi (expo x)"
    using quantum_scale_half[OF assms(3), of emin x] by (simp only: m)
  ultimately show ?thesis by simp
qed

lemma nearest_mono_pos:
  assumes "0 < x" and "x \<le> y" and "1 \<le> p"
  shows "nearest p emin x \<le> nearest p emin y"
proof -
  have y: "0 < y" using assms by simp
  have e: "expo x \<le> expo y" using assms by (intro expo_mono) simp_all
  show ?thesis
  proof (cases "max (expo x) emin = max (expo y) emin")
    case True
    then have q: "quantum p emin x = quantum p emin y" by (simp add: quantum_def)
    have "x / quantum p emin y \<le> y / quantum p emin y"
      by (intro divide_right_mono less_imp_le quantum_pos assms(2))
    from rne_mono[OF this] show ?thesis
      using assms y by (simp add: nearest_def q)
  next
    case False
    with e have lt: "max (expo x) emin + 1 \<le> expo y" and n: "emin \<le> expo y" by auto
    have "nearest p emin x \<le> 2 powi (max (expo x) emin + 1)"
      by (rule nearest_upper[OF assms(1)])
    also have "\<dots> \<le> 2 powi (expo y)"
      using lt by (intro power_int_increasing) simp_all
    also have "\<dots> \<le> nearest p emin y"
      by (rule nearest_lower[OF y n assms(3)])
    finally show ?thesis .
  qed
qed

lemma nearest_mono:
  assumes "x \<le> y" and "1 \<le> p"
  shows "nearest p emin x \<le> nearest p emin y"
proof -
  consider "0 < x" | "x \<le> 0" "0 \<le> y" | "y < 0" by linarith
  then show ?thesis
  proof cases
    case 1
    then show ?thesis using assms by (intro nearest_mono_pos)
  next
    case 2
    then have "nearest p emin x \<le> 0" using nearest_nonneg[of "- x" p emin]
      by (simp add: nearest_minus)
    moreover have "0 \<le> nearest p emin y" using 2 by (intro nearest_nonneg)
    ultimately show ?thesis by simp
  next
    case 3
    then have "nearest p emin (- y) \<le> nearest p emin (- x)"
      using assms by (intro nearest_mono_pos) simp_all
    then show ?thesis by (simp add: nearest_minus)
  qed
qed

subsection \<open>Rounding fixes the values of the format\<close>

lemma nearest_fixed:
  assumes x: "x = real_of_int n * 2 powi k" and n: "\<bar>n\<bar> < 2 ^ p" and k: "emin - int p + 1 \<le> k"
  shows "nearest p emin x = x"
proof (cases "x = 0")
  case True
  then show ?thesis by simp
next
  case False
  define u where "u = max (expo x) emin - int p + 1"
  have "real_of_int \<bar>n\<bar> < real_of_int (2 ^ p)"
    using n by (simp only: of_int_less_iff)
  then have "\<bar>real_of_int n\<bar> < 2 ^ p" by simp
  then have "\<bar>x\<bar> < 2 ^ p * 2 powi k"
    by (simp add: x abs_mult)
  also have "\<dots> = 2 powi (int p + k)"
    by (simp add: power_int_add)
  finally have "(2::real) powi expo x < 2 powi (int p + k)"
    using expo_bounds(1)[OF False] by linarith
  then have "expo x < int p + k" by (rule pow2_less_imp)
  then have uk: "u \<le> k" using k by (simp add: u_def)
  have q: "quantum p emin x = 2 powi u" by (simp add: quantum_def u_def)
  have "2 powi k = (2::real) powi (k - u) * 2 powi u"
    by (simp only: pow2_add) simp
  also have "(2::real) powi (k - u) = 2 ^ nat (k - u)"
    using uk by (simp add: power_int_def)
  finally have "real_of_int n * 2 powi k = real_of_int (n * 2 ^ nat (k - u)) * 2 powi u"
    by simp
  then have xk: "x = real_of_int (n * 2 ^ nat (k - u)) * 2 powi u"
    by (simp only: x)
  have "x / 2 powi u = real_of_int (n * 2 ^ nat (k - u))"
    by (subst xk) simp
  then have "rne (x / quantum p emin x) = n * 2 ^ nat (k - u)"
    by (simp only: q rne_of_int)
  then have "nearest p emin x = real_of_int (n * 2 ^ nat (k - u)) * 2 powi u"
    using False by (simp only: nearest_def q if_False)
  then show ?thesis by (simp only: xk [symmetric])
qed



lemma scaled_abs_upper:
  assumes "x \<noteq> 0"
  shows "\<bar>x / quantum p emin x\<bar> < 2 ^ p"
proof (cases "0 < x")
  case True
  then show ?thesis using scaled_upper[OF True, of p emin] by simp
next
  case False
  then have "0 < - x" using assms by simp
  from scaled_upper[OF this, of p emin] show ?thesis using False by simp
qed

lemma rne_abs_le:
  assumes "\<bar>q\<bar> \<le> real_of_int m"
  shows "\<bar>rne q\<bar> \<le> m"
proof -
  have "rne q \<le> rne (real_of_int m)" using assms by (intro rne_mono) linarith
  moreover have "rne (real_of_int (- m)) \<le> rne q" using assms by (intro rne_mono) simp
  ultimately have "rne q \<le> m" and "- m \<le> rne q"
    by (simp_all only: rne_of_int)
  then show ?thesis by linarith
qed


lemma nearest_idem:
  assumes "1 \<le> p"
  shows "nearest p emin (nearest p emin x) = nearest p emin x"
proof (cases "x = 0")
  case True
  then show ?thesis by simp
next
  case False
  define n where "n = rne (x / quantum p emin x)"
  define u where "u = max (expo x) emin - int p + 1"
  have y: "nearest p emin x = real_of_int n * 2 powi u"
    using False by (simp add: nearest_def n_def u_def quantum_def)
  have "\<bar>x / quantum p emin x\<bar> \<le> real_of_int (2 ^ p)"
    using scaled_abs_upper[OF False, of p emin] by simp
  then have n: "\<bar>n\<bar> \<le> 2 ^ p" unfolding n_def by (rule rne_abs_le)
  have u: "emin - int p + 1 \<le> u" by (simp add: u_def)
  show ?thesis
  proof (cases "\<bar>n\<bar> < 2 ^ p")
    case True
    from nearest_fixed[OF y True u] show ?thesis .
  next
    case False
    with n have a: "\<bar>n\<bar> = 2 ^ p" by simp
    define m where "m = sgn n * 2 ^ (p - 1)"
    have p: "(2::int) ^ p = 2 * 2 ^ (p - 1)"
      using assms by (cases p) simp_all
    have "n = sgn n * \<bar>n\<bar>" by (simp add: sgn_mult_abs)
    then have nm: "n = m * 2" by (simp add: a m_def p)
    have "nearest p emin x = real_of_int m * (2 powi 1 * 2 powi u)"
      by (simp add: y nm)
    also have "\<dots> = real_of_int m * 2 powi (u + 1)"
      by (simp only: pow2_add) (simp add: add.commute)
    finally have y': "nearest p emin x = real_of_int m * 2 powi (u + 1)" .
    have "n \<noteq> 0" using a by auto
    then have "\<bar>m\<bar> = 2 ^ (p - 1)" by (simp add: m_def abs_mult abs_sgn_eq)
    then have m: "\<bar>m\<bar> < 2 ^ p" using p by simp
    from nearest_fixed[OF y' m] u show ?thesis by simp
  qed
qed

subsection \<open>Rounding to a number\<close>

lemma round_fmt_finite:
  assumes "nearest p emin x = 0 \<or> expo (nearest p emin x) \<le> emax"
  shows "round_fmt p emin emax x = Finite (nearest p emin x)"
  using assms by (auto simp: round_fmt_def Let_def)

lemma round_fmt_cases:
  obtains (finite) "round_fmt p emin emax x = Finite (nearest p emin x)"
      "nearest p emin x = 0 \<or> expo (nearest p emin x) \<le> emax"
    | (pos) "round_fmt p emin emax x = PosInf" "0 < nearest p emin x"
      "emax < expo (nearest p emin x)"
    | (neg) "round_fmt p emin emax x = NegInf" "nearest p emin x < 0"
      "emax < expo (nearest p emin x)"
  by (cases "nearest p emin x = 0 \<or> expo (nearest p emin x) \<le> emax";
      cases "0 < nearest p emin x") (auto simp: round_fmt_def Let_def)

lemma round_fmt_mono:
  assumes "x \<le> y" and "1 \<le> p"
  shows "round_fmt p emin emax x \<le> round_fmt p emin emax y"
proof -
  have le: "nearest p emin x \<le> nearest p emin y"
    using assms by (rule nearest_mono)
  show ?thesis
  proof (cases rule: round_fmt_cases[where p = p and emin = emin and emax = emax and x = x])
    case finite
    note fx = this
    show ?thesis
    proof (cases rule: round_fmt_cases[where p = p and emin = emin and emax = emax and x = y])
      case finite
      then show ?thesis using fx le by simp
    next
      case pos
      then show ?thesis using fx by simp
    next
      case neg
      have "nearest p emin x \<noteq> 0" using neg le by auto
      moreover have "expo (nearest p emin y) \<le> expo (nearest p emin x)"
        using neg le by (intro expo_mono) auto
      ultimately show ?thesis using fx neg by auto
    qed
  next
    case pos
    note px = this
    show ?thesis
    proof (cases rule: round_fmt_cases[where p = p and emin = emin and emax = emax and x = y])
      case finite
      have "nearest p emin y \<noteq> 0" using px le by auto
      moreover have "expo (nearest p emin x) \<le> expo (nearest p emin y)"
        using px le by (intro expo_mono) auto
      ultimately show ?thesis using finite px by auto
    next
      case pos
      then show ?thesis using px by simp
    next
      case neg
      then show ?thesis using px le by auto
    qed
  next
    case neg
    then show ?thesis
      by (cases rule: round_fmt_cases[where p = p and emin = emin and emax = emax and x = y]) simp_all
  qed
qed

lemma expo_less:
  assumes "x \<noteq> 0" and "\<bar>x\<bar> < 2 powi k"
  shows "expo x < k"
proof -
  from expo_bounds(1)[OF assms(1)] assms(2) have "(2::real) powi expo x < 2 powi k" by linarith
  then show ?thesis by (rule pow2_less_imp)
qed

lemma round_fmt_fixed:
  assumes "x = real_of_int n * 2 powi k" and "\<bar>n\<bar> < 2 ^ p" and "emin - int p + 1 \<le> k"
    and "\<bar>x\<bar> < 2 powi (emax + 1)"
  shows "round_fmt p emin emax x = Finite x"
proof -
  have n: "nearest p emin x = x" using assms(1-3) by (rule nearest_fixed)
  have "x = 0 \<or> expo x \<le> emax" using expo_less[OF _ assms(4)] by auto
  then show ?thesis using round_fmt_finite[of p emin x emax] by (simp add: n)
qed

text \<open>Rounding stays within a bound that is itself a value of the format.\<close>

lemma round_fmt_bounded:
  assumes "\<bar>x\<bar> \<le> m" and "nearest p emin m = m" and "m < 2 powi (emax + 1)" and "1 \<le> p"
  shows "round_fmt p emin emax x = Finite (nearest p emin x)" and "\<bar>nearest p emin x\<bar> \<le> m"
proof -
  have "nearest p emin x \<le> nearest p emin m"
    using assms by (intro nearest_mono) auto
  moreover have "nearest p emin (- m) \<le> nearest p emin x"
    using assms by (intro nearest_mono) auto
  ultimately show b: "\<bar>nearest p emin x\<bar> \<le> m"
    using assms(2) by (simp add: nearest_minus)
  then have "\<bar>nearest p emin x\<bar> < 2 powi (emax + 1)" using assms(3) by linarith
  then have "nearest p emin x = 0 \<or> expo (nearest p emin x) \<le> emax"
    using expo_less[of "nearest p emin x" "emax + 1"] by auto
  then show "round_fmt p emin emax x = Finite (nearest p emin x)"
    by (rule round_fmt_finite)
qed

text \<open>The same for binary64.\<close>

lemma fl_mono: "x \<le> y \<Longrightarrow> fl x \<le> fl y"
  unfolding fl_def by (rule round_fmt_mono) simp_all

lemma fl_int:
  assumes "\<bar>n\<bar> < 2 ^ 53"
  shows "fl (real_of_int n) = Finite (real_of_int n)"
proof -
  have "\<bar>real_of_int n\<bar> < real_of_int (2 ^ 53)"
    using assms by (simp only: of_int_less_iff flip: of_int_abs)
  also have "\<dots> \<le> 2 powi (1023 + 1)"
    using power_int_increasing[of 53 "1023 + 1" "2::real"] by simp
  finally have b: "\<bar>real_of_int n\<bar> < 2 powi (1023 + 1)" .
  show ?thesis
    unfolding fl_def
    by (rule round_fmt_fixed[where n = n and k = 0]) (use assms b in simp_all)
qed

lemma fl_nat_exact: "n < 2 ^ 53 \<Longrightarrow> fl_nat n = Finite (real n)"
  using fl_int[of "int n"] by (simp add: fl_nat_def) 

lemma fl_quarters:
  assumes "\<bar>n\<bar> < 2 ^ 53"
  shows "nearest 53 (- 1022) (real_of_int n / 4) = real_of_int n / 4"
  by (rule nearest_fixed[where n = n and k = "- 2"]) (use assms in \<open>simp_all add: power_int_minus\<close>)


text \<open>Arithmetic on integers below \<open>2 ^ 53\<close> is exact.\<close>

lemma fl_small: "fl 0 = Finite 0" "fl 1 = Finite 1" "fl 2 = Finite 2" "fl 3 = Finite 3"
  using fl_int[of 0] fl_int[of 1] fl_int[of 2] fl_int[of 3] by simp_all

lemma fl_real_nat: "n < 2 ^ 53 \<Longrightarrow> fl (real n) = Finite (real n)"
  using fl_nat_exact[of n] by (simp add: fl_nat_def)

lemma number_plus_nat:
  "a + b < 2 ^ 53 \<Longrightarrow> Finite (real a) + Finite (real b) = Finite (real (a + b))"
  using fl_real_nat[of "a + b"] by simp

lemma number_times_nat:
  "a * b < 2 ^ 53 \<Longrightarrow> Finite (real a) * Finite (real b) = Finite (real (a * b))"
  using fl_real_nat[of "a * b"] by simp

lemma nearest_nat: "n < 2 ^ 53 \<Longrightarrow> nearest 53 (- 1022) (real n) = real n"
  by (rule nearest_fixed[where n = "int n" and k = 0]) simp_all

lemma div3_exact:
  assumes "3 * v < 2 ^ 53"
  shows "fl_nat (3 * v) / fl 3 = Finite (real v)"
proof -
  have "fl_nat (3 * v) = Finite (real (3 * v))" using assms by (rule fl_nat_exact)
  moreover have "fl (real v) = Finite (real v)" using assms by (intro fl_real_nat) simp
  ultimately show ?thesis by (simp add: fl_small)
qed

lemma floor_third:
  assumes "v < 2 ^ 50"
  shows "Math_floor (Finite (real v) / fl 3) = Finite (real (v div 3))"
proof -
  define k where "k = v div 3"
  have v53: "v < 2 ^ 53" using assms by (rule less_trans) simp
  have m: "nearest 53 (- 1022) (real v) = real v" using v53 by (rule nearest_nat)
  have "real v < 2 ^ 53" using v53 by (metis of_nat_less_iff of_nat_numeral of_nat_power)
  also have "\<dots> \<le> 2 powi (1023 + 1)"
    using power_int_increasing[of 53 "1023 + 1" "2::real"] by simp
  finally have b: "real v < 2 powi (1023 + 1)" .
  have f: "round_fmt 53 (- 1022) 1023 (real v / 3) = Finite (nearest 53 (- 1022) (real v / 3))"
    by (rule round_fmt_bounded(1)[where m = "real v"]) (use m b in simp_all)
  have "3 * k \<le> v" and "v \<le> 3 * k + 2" unfolding k_def by presburger+
  then have "real (3 * k) \<le> real v" and "real v \<le> real (3 * k + 2)"
    by (simp_all only: of_nat_le_iff)
  then have lo: "real k \<le> real v / 3" and "real v \<le> 3 * real k + 2"
    by simp_all
  then have hi: "real v / 3 \<le> real_of_int (4 * int k + 3) / 4" by simp
  have k: "k < 2 ^ 50" using assms unfolding k_def by (simp add: div_le_dividend le_less_trans)
  have "nearest 53 (- 1022) (real k) \<le> nearest 53 (- 1022) (real v / 3)"
    using lo by (intro nearest_mono) simp_all
  moreover have "k < 2 ^ 53" using k by (rule less_trans) simp
  then have "nearest 53 (- 1022) (real k) = real k"
    by (rule nearest_nat)
  moreover have "nearest 53 (- 1022) (real v / 3) \<le> nearest 53 (- 1022) (real_of_int (4 * int k + 3) / 4)"
    using hi by (intro nearest_mono) simp_all
  moreover have "nearest 53 (- 1022) (real_of_int (4 * int k + 3) / 4) = real_of_int (4 * int k + 3) / 4"
    using k by (intro fl_quarters) simp
  ultimately have "real k \<le> nearest 53 (- 1022) (real v / 3)"
    and "nearest 53 (- 1022) (real v / 3) < real k + 1"
    by simp_all
  then have fk: "\<lfloor>nearest 53 (- 1022) (real v / 3)\<rfloor> = int k"
    by (simp add: floor_eq_iff)
  have "Finite (real v) / fl 3 = fl (real v / 3)" by (simp add: fl_small)
  also have "\<dots> = Finite (nearest 53 (- 1022) (real v / 3))"
    using f by (simp only: fl_def)
  finally show ?thesis by (simp add: fk k_def)
qed



text \<open>Finite results are values of the format; scaling by a factor in the unit interval stays finite.\<close>

lemma number_minus_Finite: "Finite b - Finite a = fl (b - a)"
  by (simp add: minus_number_def)

lemma fl_never_NaN [simp]: "fl x \<noteq> NaN"
  by (simp add: fl_def round_fmt_def Let_def)

lemma fl_Finite_nearest: "fl x = Finite d \<Longrightarrow> d = nearest 53 (- 1022) x"
  by (simp add: fl_def round_fmt_def Let_def split: if_splits)

lemma fl_Finite_bound:
  assumes "fl x = Finite d"
  shows "\<bar>d\<bar> < 2 powi (1023 + 1)"
proof (cases "d = 0")
  case True
  then show ?thesis by simp
next
  case False
  have d: "d = nearest 53 (- 1022) x" using assms by (rule fl_Finite_nearest)
  have "expo d \<le> 1023"
    using assms False by (simp add: fl_def round_fmt_def Let_def d split: if_splits)
  then have "(2::real) powi (expo d + 1) \<le> 2 powi (1023 + 1)"
    by (intro power_int_increasing) simp_all
  then show ?thesis using expo_bounds(2)[OF False] by linarith
qed

lemma fl_idem:
  assumes "fl x = Finite d"
  shows "fl d = Finite d"
proof -
  have d: "d = nearest 53 (- 1022) x" using assms by (rule fl_Finite_nearest)
  have n: "nearest 53 (- 1022) d = d"
    unfolding d by (rule nearest_idem) simp
  have "d = 0 \<or> expo d \<le> 1023"
  proof (cases "d = 0")
    case False
    from expo_less[OF False fl_Finite_bound[OF assms]] show ?thesis by simp
  qed simp
  then have "round_fmt 53 (- 1022) 1023 d = Finite (nearest 53 (- 1022) d)"
    by (intro round_fmt_finite) (simp add: n)
  then show ?thesis by (simp only: fl_def n)
qed

text \<open>Rounding a value of a format to that format changes nothing; so a
  \<^verbatim>\<open>Float32Array\<close> copied by \<^verbatim>\<open>Float32Array.from\<close> has the same elements.\<close>

lemma round_fmt_idem:
  assumes "round_fmt p emin emax x = Finite d" and "1 \<le> p"
  shows "round_fmt p emin emax d = Finite d"
proof -
  have d: "d = nearest p emin x"
    using assms(1) by (simp add: round_fmt_def Let_def split: if_splits)
  have n: "nearest p emin d = d"
    unfolding d using assms(2) by (rule nearest_idem)
  have "d = 0 \<or> expo d \<le> emax"
    using assms(1) unfolding d
    by (auto simp add: round_fmt_def Let_def not_less split: if_splits)
  then have "round_fmt p emin emax d = Finite (nearest p emin d)"
    by (intro round_fmt_finite) (simp add: n)
  then show ?thesis by (simp only: n)
qed

lemma fround_idem: "fround (fround v) = fround v"
proof (cases v)
  case (Finite x)
  show ?thesis
  proof (cases "round_fmt 24 (- 126) 127 x")
    case (Finite d)
    from round_fmt_idem[OF this] show ?thesis by (simp add: \<open>v = Finite x\<close> Finite)
  qed (simp_all add: Finite)
qed simp_all

lemma fl_scaled_finite:
  assumes d: "fl x = Finite d" and "0 \<le> d" and "0 \<le> p" and "p \<le> 1"
  shows "fl (d * p) = Finite (nearest 53 (- 1022) (d * p))"
proof -
  have n: "nearest 53 (- 1022) d = d"
    using fl_idem[OF d] by (rule fl_Finite_nearest[symmetric])
  have "d * p \<le> d * 1" using assms by (intro mult_left_mono) simp_all
  then have "\<bar>d * p\<bar> \<le> d" using assms by (simp add: abs_mult)
  then show ?thesis
    unfolding fl_def using n fl_Finite_bound[OF d] assms(2)
    by (intro round_fmt_bounded(1)[where m = d]) simp_all
qed

lemma number_plus_mono:
  assumes "u \<le> v"
  shows "Finite a + Finite u \<le> Finite a + Finite v"
  using assms fl_mono[of "a + u" "a + v"] by simp


section \<open>Properties of the avatar store\<close>

lemma scheduleSteps_eq:
  "scheduleSteps = [(Finite 0, Finite 0), (Finite 500, Finite 18), (Finite 1000, Finite 37),
     (Finite 1500, Finite 58), (Finite 2000, Finite 76), (Finite 2500, Finite 92),
     (Finite 3000, Finite 100)]"
  by (simp add: scheduleSteps_def stepDelay_def steps_def totalDuration_def fl_eval)

text \<open>
  A generation on its own. Calling \<^verbatim>\<open>generateAvatar\<close> while the status is \<open>processing\<close>
  changes nothing: the store is returned as it was and no timer is registered. Calling it
  in any other status sets the status to \<open>processing\<close> and the progress to 0 and registers
  seven timers whose delays are 0, 500, 1000, 1500, 2000, 2500 and 3000 ms. If these seven
  run one after the other and nothing else touches the store, they write the progress
  values 0, 18, 37, 58, 76, 92, 100, the status stays \<open>processing\<close> for the first six and
  becomes \<open>ready\<close> with the seventh.
\<close>

lemma generateAvatar_undisturbed:
  "(status state = processing \<longrightarrow> generateAvatar state = (state, [])) \<and>
   (status state \<noteq> processing \<longrightarrow>
      (let (state', timers) = generateAvatar state in
        status state' = processing \<and> generationProgress state' = Finite 0 \<and>
        parameters state' = parameters state \<and>
        map fst timers = [Finite 0, Finite 500, Finite 1000, Finite 1500, Finite 2000,
          Finite 2500, Finite 3000] \<and>
        sorted_wrt (<) (map fst timers) \<and>
        map generationProgress (fireTimers timers state') =
          [Finite 0, Finite 18, Finite 37, Finite 58, Finite 76, Finite 92, Finite 100] \<and>
        sorted_wrt (<) (map generationProgress (fireTimers timers state')) \<and>
        map status (fireTimers timers state') =
          [processing, processing, processing, processing, processing, processing, ready]))"
  by (simp add: generateAvatar_def scheduleSteps_eq timerCallback_def fl_100 fl_0)

text \<open>
  A session on the initial page: Generate Avatar at 0 ms, Reset to Default at 1200 ms,
  Generate Avatar at 1250 ms. The first generation registers its seven timers; three have
  run when the reset puts the status back to \<open>idle\<close>, and the other four stay pending. The
  second generation finds the status \<open>idle\<close> and adds seven timers of its own.
\<close>

lemma first_generation:
  "act (Finite 0) GenerateAvatar (elapse (Finite 0) (initialState, [])) =
     (initialState\<lparr> status := processing, generationProgress := Finite 0 \<rparr>,
      [(Finite 0, Finite 0), (Finite 500, Finite 18), (Finite 1000, Finite 37),
       (Finite 1500, Finite 58), (Finite 2000, Finite 76), (Finite 2500, Finite 92),
       (Finite 3000, Finite 100)])"
  by (simp add: generateAvatar_def scheduleSteps_eq initialState_def setTimeout_def fl_eval)

lemma after_reset:
  "session [(Finite 0, GenerateAvatar), (Finite 1200, ResetParameters)] (initialState, []) =
     (initialState\<lparr> generationProgress := Finite 37 \<rparr>,
      [(Finite 1500, Finite 58), (Finite 2000, Finite 76), (Finite 2500, Finite 92),
       (Finite 3000, Finite 100)])"
proof -
  have "session [(Finite 0, GenerateAvatar), (Finite 1200, ResetParameters)] (initialState, []) =
     act (Finite 1200) ResetParameters (elapse (Finite 1200)
       (act (Finite 0) GenerateAvatar (elapse (Finite 0) (initialState, []))))"
    by simp
  also have "\<dots> = (initialState\<lparr> generationProgress := Finite 37 \<rparr>,
      [(Finite 1500, Finite 58), (Finite 2000, Finite 76), (Finite 2500, Finite 92),
       (Finite 3000, Finite 100)])"
    unfolding first_generation
    by (simp add: timerCallback_def resetParameters_def initialState_def fl_eval)
  finally show ?thesis .
qed

lemma second_generation:
  "session [(Finite 0, GenerateAvatar), (Finite 1200, ResetParameters),
       (Finite 1250, GenerateAvatar)] (initialState, []) =
     (initialState\<lparr> status := processing, generationProgress := Finite 0 \<rparr>,
      [(Finite 1250, Finite 0), (Finite 1500, Finite 58), (Finite 1750, Finite 18),
       (Finite 2000, Finite 76), (Finite 2250, Finite 37), (Finite 2500, Finite 92),
       (Finite 2750, Finite 58), (Finite 3000, Finite 100), (Finite 3250, Finite 76),
       (Finite 3750, Finite 92), (Finite 4250, Finite 100)])"
proof -
  have "session [(Finite 0, GenerateAvatar), (Finite 1200, ResetParameters),
       (Finite 1250, GenerateAvatar)] (initialState, []) =
     act (Finite 1250) GenerateAvatar (elapse (Finite 1250)
       (session [(Finite 0, GenerateAvatar), (Finite 1200, ResetParameters)] (initialState, [])))"
    by simp
  also have "\<dots> = (initialState\<lparr> status := processing, generationProgress := Finite 0 \<rparr>,
      [(Finite 1250, Finite 0), (Finite 1500, Finite 58), (Finite 1750, Finite 18),
       (Finite 2000, Finite 76), (Finite 2250, Finite 37), (Finite 2500, Finite 92),
       (Finite 2750, Finite 58), (Finite 3000, Finite 100), (Finite 3250, Finite 76),
       (Finite 3750, Finite 92), (Finite 4250, Finite 100)])"
    unfolding after_reset
    by (simp add: generateAvatar_def scheduleSteps_eq initialState_def setTimeout_def fl_eval)
  finally show ?thesis .
qed

text \<open>
  Claim C5. The claim has a generation that starts from \<open>idle\<close> emit exactly the increasing
  progress values 0, 18, 37, 58, 76, 92, 100 and reach \<open>ready\<close> with the last of them. The
  guard of \<^verbatim>\<open>generateAvatar\<close> is there to keep a second generation from starting while
  one runs, but it looks at the status only, and \<^verbatim>\<open>resetParameters\<close> and \<^verbatim>\<open>setParameters\<close>
  set the status to \<open>idle\<close> while the timers of a generation are pending. In the session
  above the second generation does start from \<open>idle\<close>; the store then goes through the
  progress values 0, 58, 18, 76, 37, 92, 58, 100, 76, 92, 100, which go up and down, and
  the status is \<open>ready\<close> from the first 100 on, written by a timer of the first generation
  when the second has only reached 58 and 1750 of its 3000 ms have passed.
\<close>

theorem generateAvatar_overlapping:
  "status (fst (session [(Finite 0, GenerateAvatar), (Finite 1200, ResetParameters)]
       (initialState, []))) = idle \<and>
   status (fst (session [(Finite 0, GenerateAvatar), (Finite 1200, ResetParameters),
       (Finite 1250, GenerateAvatar)] (initialState, []))) = processing \<and>
   map (\<lambda>state. (generationProgress state, status state))
     (fireTimers
        (snd (session [(Finite 0, GenerateAvatar), (Finite 1200, ResetParameters),
           (Finite 1250, GenerateAvatar)] (initialState, [])))
        (fst (session [(Finite 0, GenerateAvatar), (Finite 1200, ResetParameters),
           (Finite 1250, GenerateAvatar)] (initialState, [])))) =
     [(Finite 0, processing), (Finite 58, processing), (Finite 18, processing),
      (Finite 76, processing), (Finite 37, processing), (Finite 92, processing),
      (Finite 58, processing), (Finite 100, ready), (Finite 76, ready), (Finite 92, ready),
      (Finite 100, ready)]"
  unfolding after_reset second_generation
  by (simp add: timerCallback_def initialState_def fl_100)


text \<open>
  Claim C6. For every section, field and value, \<^verbatim>\<open>setParameter\<close> called while the status
  is \<open>ready\<close> sets the status to \<open>idle\<close>; called while the status is \<open>idle\<close> or \<open>processing\<close>
  it leaves the status as it is. In every case \<^verbatim>\<open>generationProgress\<close> keeps its value.
\<close>

theorem setParameter_status:
  "(status state = ready \<longrightarrow> status (setParameter edit state) = idle) \<and>
   (status state = idle \<longrightarrow> status (setParameter edit state) = idle) \<and>
   (status state = processing \<longrightarrow> status (setParameter edit state) = processing) \<and>
   generationProgress (setParameter edit state) = generationProgress state"
  by (simp add: setParameter_def)

theorem setParameter_status_witness:
  "status (initialState\<lparr> status := ready, generationProgress := Finite 100 \<rparr>) = ready \<and>
   status (setParameter (Hair (Style buzz))
     (initialState\<lparr> status := ready, generationProgress := Finite 100 \<rparr>)) = idle \<and>
   generationProgress (setParameter (Hair (Style buzz))
     (initialState\<lparr> status := ready, generationProgress := Finite 100 \<rparr>)) = Finite 100 \<and>
   status initialState = idle \<and>
   status (setParameter (Body (Height (Finite 1))) initialState) = idle \<and>
   status (initialState\<lparr> status := processing \<rparr>) = processing \<and>
   status (setParameter (Skin (Tone ''#ffffff'')) (initialState\<lparr> status := processing \<rparr>))
     = processing"
  using setParameter_status [of "initialState\<lparr> status := ready, generationProgress := Finite 100 \<rparr>"
      "Hair (Style buzz)"]
    setParameter_status [of initialState "Body (Height (Finite 1))"]
    setParameter_status [of "initialState\<lparr> status := processing \<rparr>" "Skin (Tone ''#ffffff'')"]
  by (simp add: initialState_def)

text \<open>
  Claim C10. Replacing the whole parameter set, by \<^verbatim>\<open>setParameters(params)\<close> or by
  \<^verbatim>\<open>resetParameters()\<close>, sets the status to \<open>idle\<close> whatever it was before, also when it
  was \<open>processing\<close>, and leaves \<^verbatim>\<open>generationProgress\<close> as it was; a single-field
  \<^verbatim>\<open>setParameter\<close> on a \<open>processing\<close> store keeps the status \<open>processing\<close>.
\<close>

theorem replace_parameters_idle:
  "status (setParameters params state) = idle \<and>
   status (resetParameters state) = idle \<and>
   status (setParameters params (state\<lparr> status := processing \<rparr>)) = idle \<and>
   status (resetParameters (state\<lparr> status := processing \<rparr>)) = idle \<and>
   status (setParameter edit (state\<lparr> status := processing \<rparr>)) = processing \<and>
   generationProgress (setParameters params state) = generationProgress state \<and>
   generationProgress (resetParameters state) = generationProgress state \<and>
   parameters (setParameters params state) = params \<and>
   parameters (resetParameters state) = defaultParameters"
  by (simp add: setParameters_def resetParameters_def setParameter_def)


section \<open>Properties of the exporters\<close>

lemma parallel_push:
  "parallel (vertices, normals) \<Longrightarrow> parallel (vertices @ [a, b, c], normals @ [d, e, f])"
  unfolding parallel_def by simp presburger

lemma forEachVertex_parallel:
  "parallel arrays \<Longrightarrow>
   parallel (forEachVertex three worldMatrix normalMatrix positionAttribute normalAttribute i arrays)"
proof (induction "length positionAttribute - i" arbitrary: i arrays normalAttribute)
  case 0
  obtain vertices normals where a: "arrays = (vertices, normals)"
    by (cases arrays)
  from 0 show ?case
    unfolding a by (subst forEachVertex.simps) simp
next
  case (Suc k)
  obtain vertices normals where a: "arrays = (vertices, normals)"
    by (cases arrays)
  from Suc.hyps(2) have less: "i < length positionAttribute" and k: "k = length positionAttribute - Suc i"
    by simp_all
  have step: "parallel (forEachVertex three worldMatrix normalMatrix positionAttribute
      attribute (Suc i) (vertices @ [a1, a2, a3], normals @ [b1, b2, b3]))"
    for a1 a2 a3 b1 b2 b3 attribute
    using Suc.hyps(1)[OF k] Suc.prems parallel_push a by blast
  show ?case
    unfolding a
    by (subst forEachVertex.simps)
      (simp add: less Let_def step split: prod.splits option.splits)
qed

lemma visit_parallel:
  "parallel arrays \<Longrightarrow> visit three child arrays = Inr arrays' \<Longrightarrow> parallel arrays'"
  by (auto simp: visit_def Let_def forEachVertex_parallel split: if_splits option.splits)

lemma traverse_invariant:
  fixes callback :: "('g, 'm) Object3D \<Rightarrow> 'a \<Rightarrow> TypeError + 'a"
  shows "(\<And>child a a'. P a \<Longrightarrow> callback child a = Inr a' \<Longrightarrow> P a') \<Longrightarrow>
      P acc \<Longrightarrow> traverse callback object acc = Inr acc' \<Longrightarrow> P acc'"
    and "(\<And>child a a'. P a \<Longrightarrow> callback child a = Inr a' \<Longrightarrow> P a') \<Longrightarrow>
      P acc \<Longrightarrow> traverseChildren callback objects' acc = Inr acc' \<Longrightarrow> P acc'"
proof (induction callback object acc and callback objects' acc arbitrary: acc' and acc'
    rule: traverse_traverseChildren.induct)
  case (1 callback m g w cs acc)
  from "1.prems"(3) obtain acc1 where c: "callback (Object3D m g w cs) acc = Inr acc1"
    and r: "traverseChildren callback cs acc1 = Inr acc'"
    by (auto split: sum.splits)
  from "1.prems"(1)[OF "1.prems"(2) c] have "P acc1" .
  from "1.IH"[OF c "1.prems"(1) this r] show ?case .
next
  case (2 callback acc)
  then show ?case by simp
next
  case (3 callback c cs acc)
  from "3.prems"(3) obtain acc1 where c: "traverse callback c acc = Inr acc1"
    and r: "traverseChildren callback cs acc1 = Inr acc'"
    by (auto split: sum.splits)
  from "3.IH"(1)[OF "3.prems"(1) "3.prems"(2) c] have "P acc1" .
  from "3.IH"(2)[OF c "3.prems"(1) this r] show ?case .
qed

lemma collectMeshes_arrays:
  "collectMeshes three root' = Inr arrays \<Longrightarrow> parallel arrays"
proof -
  assume r: "collectMeshes three root' = Inr arrays"
  have "parallel ([], [])" by (simp add: parallel_def)
  then show "parallel arrays"
    using r traverse_invariant(1)[of parallel "visit three" "([], [])" root' arrays]
      visit_parallel
    unfolding collectMeshes_def by blast
qed

lemma collectMeshes_exampleTriangle:
  "collectMeshes exampleThree exampleTriangle =
     Inr ([Finite 0, Finite 0, Finite 0, Finite 1, Finite 0, Finite 0, Finite 0, Finite 1, Finite 0],
          [Finite 0, Finite 1, Finite 0, Finite 0, Finite 1, Finite 0, Finite 0, Finite 1, Finite 0])"
  by (simp add: collectMeshes_def exampleThree_def exampleTriangle_def visit_def
      forEachVertex.simps fromBufferAttribute_def fl_eval)


















lemma polygonLoop_runs:
  assumes "3 * c < 2 ^ 53"
  shows "k \<le> c \<Longrightarrow> polygonLoop (Finite (real c)) (Finite (real k)) acc
    = Some (acc @ concat (map polygonTriple [k..<c]))"
proof (induction "c - k" arbitrary: k acc)
  case 0
  then have "k = c" by simp
  then show ?case by (subst polygonLoop.simps) simp
next
  case (Suc d)
  then have lt: "k < c" and d: "d = c - Suc k" and le: "Suc k \<le> c" by simp_all
  have b: "3 * k + 3 < 2 ^ 53" using lt assms by simp
  have base: "Finite (real k) * fl 3 = Finite (real k * 3)"
    using b number_times_nat[of k 3] by (simp add: fl_small)
  have b1: "Finite (real k * 3) + fl 1 = Finite (1 + real k * 3)"
    using b number_plus_nat[of "k * 3" 1] by (simp add: fl_small add.commute)
  have b2: "Finite (real k * 3) + fl 2 = Finite (2 + real k * 3)"
    using b number_plus_nat[of "k * 3" 2] by (simp add: fl_small add.commute)
  have b3: "Finite (2 + real k * 3) + fl 1 = Finite (3 + real k * 3)"
    using b number_plus_nat[of "k * 3 + 2" 1] by (simp add: fl_small add.commute)
  have i1: "Finite (real k) + fl 1 = Finite (1 + real k)"
    using b number_plus_nat[of k 1] by (simp add: fl_small add.commute)
  have "polygonLoop (Finite (real c)) (Finite (real k)) acc
      = polygonLoop (Finite (real c)) (Finite (real (Suc k))) (acc @ polygonTriple k)"
    using lt by (subst polygonLoop.simps)
      (simp add: Let_def base b1 b2 b3 i1 polygonTriple_def mult.commute)
  also have "\<dots> = Some ((acc @ polygonTriple k) @ concat (map polygonTriple [Suc k..<c]))"
    by (rule Suc.hyps(1)[OF d le])
  also have "\<dots> = Some (acc @ concat (map polygonTriple [k..<c]))"
    using lt by (simp add: upt_conv_Cons)
  finally show ?case .
qed


text \<open>
  Claim C1. For every vertex stream \<^verbatim>\<open>collectMeshes\<close> produces (of fewer than \<open>2 ^ 32\<close>
  coordinates, the limit of an array), \<^verbatim>\<open>exportAvatarAsFBX\<close> leaves its loop and the
  polygon-index array it emits consists of \<open>\<lfloor>vertexCount / 3\<rfloor>\<close> triples, where
  \<open>vertexCount\<close> is the number of vertices, a third of the number of coordinates; the
  \<open>i\<close>-th triple is \<open>(3i, 3i + 1, -(3i + 2 + 1))\<close>. All index arithmetic is exact in
  binary64. For a stream of three vertices the array is \<open>[0, 1, -3]\<close>.
\<close>

theorem exportAvatarAsFBX_polygonIndices:
  assumes "collectMeshes three root' = Inr (vertices, normals)"
    and "length vertices < 2 ^ 32"
  shows "exportAvatarAsFBX three root' = Some (Inr \<lparr> Vertices = vertices,
    PolygonVertexIndex = concat (map polygonTriple [0..<length vertices div 3 div 3]),
    Normals = normals \<rparr>)"
proof -
  from collectMeshes_arrays[OF assms(1)] have "3 dvd length vertices"
    by (auto simp: parallel_def)
  then obtain v where v: "length vertices = 3 * v" ..
  have v32: "3 * v < 2 ^ 32" using assms(2) v by simp
  then have v53: "3 * v < 2 ^ 53" by (rule less_trans) simp
  have v50: "v < 2 ^ 50" using v32 by simp
  define c where "c = v div 3"
  have c: "3 * c < 2 ^ 53" using v50 unfolding c_def by simp
  have count: "Math_floor (fl_nat (length vertices) / fl 3 / fl 3) = Finite (real c)"
    unfolding v c_def by (simp only: div3_exact[OF v53] floor_third[OF v50])
  have "polygonLoop (Finite (real c)) (fl 0) [] = Some ([] @ concat (map polygonTriple [0..<c]))"
    using polygonLoop_runs[OF c, of 0 "[]"] by (simp add: fl_small)
  then show ?thesis
    using assms(1) by (simp add: exportAvatarAsFBX_def Let_def count) (simp add: c_def v)
qed

theorem exportAvatarAsFBX_polygonIndices_witness:
  "collectMeshes exampleThree exampleTriangle =
     Inr ([Finite 0, Finite 0, Finite 0, Finite 1, Finite 0, Finite 0, Finite 0, Finite 1, Finite 0],
          [Finite 0, Finite 1, Finite 0, Finite 0, Finite 1, Finite 0, Finite 0, Finite 1, Finite 0]) \<and>
   length [Finite 0, Finite 0, Finite 0, Finite 1, Finite 0, Finite 0, Finite 0, Finite 1, Finite 0 :: number]
     < 2 ^ 32 \<and>
   map_option (map_sum id PolygonVertexIndex) (exportAvatarAsFBX exampleThree exampleTriangle)
     = Some (Inr [Finite 0, Finite 1, Finite (- 3)])"
  using exportAvatarAsFBX_polygonIndices [OF collectMeshes_exampleTriangle] collectMeshes_exampleTriangle
  by (simp add: polygonTriple_def)


text \<open>
  Claim C3, as stated, has \<^verbatim>\<open>exportAvatarAsGLTF\<close> configure the serialization routine to
  include only visible nodes, to embed images and to force non-indexed triangle lists.
  The options object the function passes sets \<^verbatim>\<open>forceIndices\<close>: it tells the exporter to
  generate indices, so it is not the configuration the claim describes.
\<close>

theorem gltfOptions_force_indices:
  "\<not> nonIndexedConfiguration gltfOptions"
  by (simp add: nonIndexedConfiguration_def gltfOptions_def)

text \<open>
  Claim C3, amended. \<^verbatim>\<open>exportAvatarAsGLTF\<close> calls the serialization routine with the
  options \<^verbatim>\<open>onlyVisible\<close>, \<^verbatim>\<open>embedImages\<close> and \<^verbatim>\<open>forceIndices\<close> all true, and what the routine
  does with the scene and these options decides the promise: a binary result resolves it
  with a blob of type model/gltf-binary, any other result with the JSON text as a blob of
  type model/gltf+json; an \<^verbatim>\<open>ErrorEvent\<close> passed to the error callback rejects it with an
  \<^verbatim>\<open>Error\<close> carrying the event's message, any other value passed there or thrown rejects
  it with that value unchanged; a routine that calls neither callback leaves it pending.
  A failed import of the exporter rejects it as well.
\<close>

theorem exportAvatarAsGLTF_outcomes:
  "gltfOptions = \<lparr> onlyVisible = True, embedImages = True, forceIndices = True \<rparr> \<and>
   exportAvatarAsGLTF stringify
       (ImportFailed error :: ('s \<Rightarrow> GLTFOptions \<Rightarrow> ('b, 'j, 'v) ParseOutcome, 'v) Import) group'
     = Rejected error \<and>
   ((parse :: 's \<Rightarrow> GLTFOptions \<Rightarrow> ('b, 'j, 'v) ParseOutcome) group'
       \<lparr> onlyVisible = True, embedImages = True, forceIndices = True \<rparr> = outcome \<longrightarrow>
      exportAvatarAsGLTF stringify (Module parse) group' =
        (case outcome of
           OnDone (ArrayBuffer buffer) \<Rightarrow>
             Resolved \<lparr> part = Bytes buffer, type = ''model/gltf-binary'' \<rparr>
         | OnDone (JSONObject object) \<Rightarrow>
             Resolved \<lparr> part = Text (stringify object), type = ''model/gltf+json'' \<rparr>
         | OnError (ErrorEvent message) \<Rightarrow> Rejected (Error message)
         | OnError other \<Rightarrow> Rejected other
         | Throws thrown \<Rightarrow> Rejected thrown
         | NoCallback \<Rightarrow> Pending))"
  by (auto simp: exportAvatarAsGLTF_def gltfOptions_def onDone_def onError_def
      split: ParseOutcome.splits GLTF.splits Thrown.splits)

theorem exportAvatarAsGLTF_outcomes_witness:
  "exampleParse () \<lparr> onlyVisible = True, embedImages = True, forceIndices = True \<rparr>
     = OnError (ErrorEvent ''failed'') \<and>
   exportAvatarAsGLTF exampleStringify (Module exampleParse) () = Rejected (Error ''failed'')"
  using exportAvatarAsGLTF_outcomes [of exampleStringify "Other ()" "()" exampleParse
      "OnError (ErrorEvent ''failed'')"]
  by (simp add: exampleParse_def gltfOptions_def)


section \<open>Properties of the scene\<close>

lemma hairPrimitives_AvatarModel:
  "hairPrimitives (AvatarModel lib parameters') =
     (if style (hair parameters') = buzz then [buzzMesh lib parameters']
      else map (hairLayerMesh lib parameters') (hairLayers parameters'))"
proof -
  have t: "withRef ''hairGroupRef'' (torsoGroup lib parameters') = []"
    by (simp add: torsoGroup_def)
  have h: "withRef ''hairGroupRef'' (headMesh lib parameters') = []"
    by (simp add: headMesh_def skinPrimitive_def)
  have f: "withRef ''hairGroupRef'' (faceGroup lib parameters') = []"
    by (simp add: faceGroup_def skinPrimitive_def eyeMaterial_def)
  have c: "withRef ''hairGroupRef'' (clothFloat lib parameters') = []"
    by (simp add: clothFloat_def)
  have l: "withRef ''hairGroupRef'' (hairLayerMesh lib parameters' layer) = []" for layer
    by (simp add: hairLayerMesh_def)
  have b: "withRef ''hairGroupRef'' (buzzMesh lib parameters') = []"
    by (simp add: buzzMesh_def)
  have g: "withRef ''hairGroupRef'' (hairGroup lib parameters') = [hairGroup lib parameters']"
    by (simp add: hairGroup_def l b)
  have a: "withRef ''hairGroupRef'' (AvatarModel lib parameters') = [hairGroup lib parameters']"
    by (simp add: AvatarModel_def t h f c g)
  have m: "filter (\<lambda>e. tag e = ''mesh'') (map (hairLayerMesh lib parameters') ls)
      = map (hairLayerMesh lib parameters') ls" for ls
    by (induction ls) (simp_all add: hairLayerMesh_def)
  show ?thesis
    by (simp add: hairPrimitives_def a hairGroup_def m) (simp add: buzzMesh_def)
qed



text \<open>
  Claim C4. For every parameter set, the scene \<^verbatim>\<open>AvatarModel\<close> builds has, under its hair
  group, exactly one mesh when the hair style is buzz, a sphere scaled by
  (0.95, 0.85, 0.95), and exactly six meshes, one per hair layer, for every other style;
  no other parameter matters.
\<close>

theorem hair_primitive_count:
  "length (hairPrimitives (AvatarModel lib parameters')) =
     (if style (hair parameters') = buzz then 1 else 6) \<and>
   hairPrimitives (AvatarModel lib parameters') =
     (if style (hair parameters') = buzz
      then [Element ''mesh'' [(''scale'', Vec [fl 0.95, fl 0.85, fl 0.95])]
              [Element ''sphereGeometry'' [(''args'', Vec [fl 0.42, fl 48, fl 48])] [],
               Element ''meshPhysicalMaterial''
                 [(''color'', Col (hairHue lib parameters')),
                  (''roughness'', Num (fl 0.35)),
                  (''metalness'', Num (fl 0.02)),
                  (''clearcoat'', Num (fl 0.5))] []]]
      else map (hairLayerMesh lib parameters') (hairLayers parameters'))"
  by (simp add: hairPrimitives_AvatarModel buzzMesh_def hairLayers_def layers_def)

subsection \<open>The hair colours\<close>

lemma channel_blend_0:
  assumes "channel c" and "channel c'"
  shows "c + (c' - c) * Finite 0 = c"
proof -
  from assms obtain x y where c: "c = Finite x" "c' = Finite y"
    by (cases c; cases c') simp_all
  have x: "0 \<le> x" "x \<le> 1" "fl x = Finite x" and y: "0 \<le> y" "y \<le> 1"
    using assms by (simp_all add: c)
  have one: "nearest 53 (- 1022) 1 = 1"
    using nearest_nat[of 1] by simp
  have "round_fmt 53 (- 1022) 1023 (y - x) = Finite (nearest 53 (- 1022) (y - x))"
    by (rule round_fmt_bounded(1)[where m = 1]) (use x y one in \<open>simp_all add: abs_le_iff\<close>)
  then have "Finite y - Finite x = Finite (nearest 53 (- 1022) (y - x))"
    by (simp only: number_minus_Finite fl_def)
  then show ?thesis by (simp add: c fl_small x)
qed

lemma Color_lerp_0:
  assumes "validColor c" and "validColor c'"
  shows "Color_lerp c c' (Finite 0) = c"
  using assms by (cases c; cases c') (simp add: channel_blend_0)

lemma upt_0_6: "[0..<6] = [0, 1, 2, 3, 4, 5 :: nat]"
  by code_simp

lemma hairLayers_offsets:
  "map offset (hairLayers parameters') =
     [Finite 0, Finite (6004799503160661 / 36028797018963968),
      Finite (6004799503160661 / 18014398509481984), Finite (1 / 2),
      Finite (6004799503160661 / 9007199254740992),
      Finite (7505999378950827 / 9007199254740992)]"
  by (simp add: hairLayers_def layers_def upt_0_6 Let_def) (simp add: fl_eval)

lemma hairLayers_factors:
  "map (\<lambda>layer. offset layer * fl 0.6) (hairLayers parameters') =
     [Finite 0, Finite (7205759403792793 / 72057594037927936),
      Finite (7205759403792793 / 36028797018963968),
      Finite (5404319552844595 / 18014398509481984),
      Finite (7205759403792793 / 18014398509481984), Finite (1 / 2)]"
proof -
  have "map (\<lambda>layer. offset layer * fl 0.6) (hairLayers parameters')
      = map (\<lambda>t. t * fl 0.6) (map offset (hairLayers parameters'))"
    by (simp add: comp_def)
  also have "\<dots> = [Finite 0, Finite (7205759403792793 / 72057594037927936),
      Finite (7205759403792793 / 36028797018963968),
      Finite (5404319552844595 / 18014398509481984),
      Finite (7205759403792793 / 18014398509481984), Finite (1 / 2)]"
    by (simp only: hairLayers_offsets list.map) (simp add: fl_eval)
  finally show ?thesis .
qed


lemma materialColor_hairLayerMesh:
  "materialColor (hairLayerMesh lib parameters' layer) =
     Some (Col (Color_lerp (hairHue lib parameters') (secondaryHairColor lib parameters')
       (offset layer * fl 0.6)))"
  by (simp add: materialColor_def hairLayerMesh_def)

text \<open>
  Claim C2, as stated, has the blend factor of the top hair layer be approximately 0.6.
  For the default parameters, whose style is not buzz, the factor of the last of the six
  layers is exactly 0.5; it does not lie within 0.05 of 0.6.
\<close>

theorem top_hair_layer_factor:
  "style (hair defaultParameters) \<noteq> buzz \<and>
   offset (last (hairLayers defaultParameters)) * fl 0.6 = Finite (1 / 2) \<and>
   \<not> (Finite 0.55 \<le> offset (last (hairLayers defaultParameters)) * fl 0.6 \<and>
      offset (last (hairLayers defaultParameters)) * fl 0.6 \<le> Finite 0.65)"
proof -
  have "map (\<lambda>layer. offset layer * fl 0.6) (hairLayers defaultParameters) \<noteq> []"
    by (simp only: hairLayers_factors) simp
  then have "offset (last (hairLayers defaultParameters)) * fl 0.6
      = last (map (\<lambda>layer. offset layer * fl 0.6) (hairLayers defaultParameters))"
    by (simp add: last_map)
  also have "\<dots> = Finite (1 / 2)"
    by (simp only: hairLayers_factors) simp
  finally show ?thesis by (simp add: defaultParameters_def)
qed

text \<open>
  Claim C2, amended. For every hair style other than buzz the hair group holds six
  meshes, and the material colour of each is the linear blend of the primary hair colour
  towards the secondary one with factor \<open>offset * 0.6\<close>, where \<open>offset\<close> is the layer's
  vertical offset fraction \<open>index / 6\<close>. Offsets and factors increase strictly with the
  layer. The factors are the numbers nearest to 0, 0.1, 0.2, 0.3, 0.4 and, for the top layer,
  exactly 0.5 (half secondary). Layer 0 has the pure primary colour whenever the channels
  of both colours are numbers from 0 to 1.
\<close>

theorem hair_layer_colors:
  assumes "style (hair parameters') \<noteq> buzz"
  shows "map materialColor (hairPrimitives (AvatarModel lib parameters')) =
      map (\<lambda>layer. Some (Col (Color_lerp (hairHue lib parameters')
        (secondaryHairColor lib parameters') (offset layer * fl 0.6)))) (hairLayers parameters') \<and>
    map offset (hairLayers parameters') =
      [Finite 0, Finite (6004799503160661 / 36028797018963968),
       Finite (6004799503160661 / 18014398509481984), Finite (1 / 2),
       Finite (6004799503160661 / 9007199254740992),
       Finite (7505999378950827 / 9007199254740992)] \<and>
    map (\<lambda>layer. offset layer * fl 0.6) (hairLayers parameters') =
      [Finite 0, Finite (7205759403792793 / 72057594037927936),
       Finite (7205759403792793 / 36028797018963968),
       Finite (5404319552844595 / 18014398509481984),
       Finite (7205759403792793 / 18014398509481984), Finite (1 / 2)] \<and>
    sorted_wrt (<) (map offset (hairLayers parameters')) \<and>
    sorted_wrt (<) (map (\<lambda>layer. offset layer * fl 0.6) (hairLayers parameters')) \<and>
    (validColor (hairHue lib parameters') \<longrightarrow> validColor (secondaryHairColor lib parameters') \<longrightarrow>
       Color_lerp (hairHue lib parameters') (secondaryHairColor lib parameters') (Finite 0)
         = hairHue lib parameters')"
proof (intro conjI impI)
  show "map materialColor (hairPrimitives (AvatarModel lib parameters')) =
      map (\<lambda>layer. Some (Col (Color_lerp (hairHue lib parameters')
        (secondaryHairColor lib parameters') (offset layer * fl 0.6)))) (hairLayers parameters')"
    using assms by (simp add: hairPrimitives_AvatarModel materialColor_hairLayerMesh comp_def)
  show "map offset (hairLayers parameters') =
      [Finite 0, Finite (6004799503160661 / 36028797018963968),
       Finite (6004799503160661 / 18014398509481984), Finite (1 / 2),
       Finite (6004799503160661 / 9007199254740992),
       Finite (7505999378950827 / 9007199254740992)]"
    by (rule hairLayers_offsets)
  show "map (\<lambda>layer. offset layer * fl 0.6) (hairLayers parameters') =
      [Finite 0, Finite (7205759403792793 / 72057594037927936),
       Finite (7205759403792793 / 36028797018963968),
       Finite (5404319552844595 / 18014398509481984),
       Finite (7205759403792793 / 18014398509481984), Finite (1 / 2)]"
    by (rule hairLayers_factors)
  show "sorted_wrt (<) (map offset (hairLayers parameters'))"
    by (simp only: hairLayers_offsets) simp
  show "sorted_wrt (<) (map (\<lambda>layer. offset layer * fl 0.6) (hairLayers parameters'))"
    by (simp only: hairLayers_factors) simp
next
  assume "validColor (hairHue lib parameters')" "validColor (secondaryHairColor lib parameters')"
  then show "Color_lerp (hairHue lib parameters') (secondaryHairColor lib parameters') (Finite 0)
      = hairHue lib parameters'"
    by (rule Color_lerp_0)
qed

theorem hair_layer_colors_witness:
  "style (hair defaultParameters) \<noteq> buzz \<and>
   validColor (hairHue exampleColorLib defaultParameters) \<and>
   validColor (secondaryHairColor exampleColorLib defaultParameters) \<and>
   Color_lerp (hairHue exampleColorLib defaultParameters)
       (secondaryHairColor exampleColorLib defaultParameters) (Finite 0)
     = RGB (Finite (1 / 8)) (Finite (1 / 8)) (Finite (1 / 16)) \<and>
   length (map materialColor (hairPrimitives (AvatarModel exampleColorLib defaultParameters))) = 6"
proof -
  have s: "style (hair defaultParameters) \<noteq> buzz"
    by (simp add: defaultParameters_def)
  have h: "hairHue exampleColorLib defaultParameters
      = RGB (Finite (1 / 8)) (Finite (1 / 8)) (Finite (1 / 16))"
    by (simp add: hairHue_def exampleColorLib_def defaultParameters_def)
  have v: "validColor (hairHue exampleColorLib defaultParameters)"
    by (simp only: h) (simp add: fl_eval)
  have c: "secondaryHairColor exampleColorLib defaultParameters
      = RGB (Finite (1 / 4)) (Finite (1 / 8)) (Finite (1 / 8))"
    by (simp add: secondaryHairColor_def exampleColorLib_def defaultParameters_def)
  have w: "validColor (secondaryHairColor exampleColorLib defaultParameters)"
    by (simp only: c) (simp add: fl_eval)
  from hair_layer_colors [OF s, of exampleColorLib] s v w h
  show ?thesis by (simp add: hairLayers_def layers_def)
qed


subsection \<open>lerp\<close>

lemma lerp_0:
  assumes "fl a = Finite a" and "Finite b - Finite a = Finite d"
  shows "lerp (Finite 0) (Finite a) (Finite b) = Finite a"
  using assms by (simp add: lerp_def fl_small)

lemma lerp_1:
  assumes "Finite b - Finite a = Finite d"
  shows "lerp (Finite 1) (Finite a) (Finite b) = Finite a + (Finite b - Finite a)"
proof -
  have "fl (b - a) = Finite d" using assms by (simp add: number_minus_Finite)
  then have "fl d = Finite d" by (rule fl_idem)
  then show ?thesis using assms by (simp add: lerp_def)
qed


lemma lerp_mono:
  assumes "a \<le> b" and d: "Finite b - Finite a = Finite d" and "0 \<le> p" and "p \<le> q" and "q \<le> 1"
  shows "lerp (Finite p) (Finite a) (Finite b) \<le> lerp (Finite q) (Finite a) (Finite b)"
proof -
  have f: "fl (b - a) = Finite d" using d by (simp add: number_minus_Finite)
  have "0 \<le> nearest 53 (- 1022) (b - a)" using assms(1) by (intro nearest_nonneg) simp
  then have d0: "0 \<le> d" using fl_Finite_nearest[OF f] by simp
  have p: "fl (d * p) = Finite (nearest 53 (- 1022) (d * p))"
    using f d0 assms by (intro fl_scaled_finite) simp_all
  have q: "fl (d * q) = Finite (nearest 53 (- 1022) (d * q))"
    using f d0 assms by (intro fl_scaled_finite) simp_all
  have "d * p \<le> d * q" using assms(4) d0 by (rule mult_left_mono)
  then have "nearest 53 (- 1022) (d * p) \<le> nearest 53 (- 1022) (d * q)"
    by (intro nearest_mono) simp_all
  then have "Finite a + Finite (nearest 53 (- 1022) (d * p))
      \<le> Finite a + Finite (nearest 53 (- 1022) (d * q))"
    by (rule number_plus_mono)
  then show ?thesis by (simp add: lerp_def d p q)
qed

lemma lerp_declaredRanges:
  "map (\<lambda>(lo, hi). lerp (Finite 1) (fl lo) (fl hi)) declaredRanges
     = map (\<lambda>(lo, hi). fl hi) declaredRanges"
  by (simp add: declaredRanges_def) (simp add: lerp_def fl_eval)

text \<open>
  Claim C8, as stated, has \<open>lerp(1, lo, hi) = hi\<close> exactly for every \<open>lo \<le> hi\<close>. In binary64
  arithmetic \<open>0.2 + (0.9 - 0.2) * 1\<close> is 0.8999999999999999, not 0.9.
\<close>

theorem lerp_not_exact_at_1:
  "fl 0.2 \<le> fl 0.9 \<and> lerp (Finite 1) (fl 0.2) (fl 0.9) \<noteq> fl 0.9"
  by (simp add: lerp_def fl_eval)

text \<open>
  Claim C8, amended. For all numbers \<open>lo \<le> hi\<close> whose difference \<open>hi - lo\<close> does not
  overflow: \<open>lerp(0, lo, hi)\<close> is exactly \<open>lo\<close>; \<open>lerp(p, lo, hi)\<close> is non-decreasing in \<open>p\<close>
  over the unit interval; and \<open>lerp(1, lo, hi)\<close> is \<open>lo + (hi - lo)\<close> computed with the two
  roundings of binary64, which is exactly \<open>hi\<close> for each of the pairs \<open>(lo, hi)\<close> the file
  calls \<^verbatim>\<open>lerp\<close> with.
\<close>

theorem lerp_properties:
  assumes "fl a = Finite a" and "fl b = Finite b" and "a \<le> b"
    and "Finite b - Finite a \<noteq> PosInf"
  shows "lerp (Finite 0) (Finite a) (Finite b) = Finite a \<and>
    (0 \<le> p \<longrightarrow> p \<le> q \<longrightarrow> q \<le> 1 \<longrightarrow>
       lerp (Finite p) (Finite a) (Finite b) \<le> lerp (Finite q) (Finite a) (Finite b)) \<and>
    lerp (Finite 1) (Finite a) (Finite b) = Finite a + (Finite b - Finite a) \<and>
    map (\<lambda>(lo, hi). lerp (Finite 1) (fl lo) (fl hi)) declaredRanges
      = map (\<lambda>(lo, hi). fl hi) declaredRanges"
proof -
  have "fl 0 \<le> fl (b - a)" using assms(3) by (intro fl_mono) simp
  then have "fl (b - a) \<noteq> NegInf" by (auto simp: fl_small)
  then obtain d where d: "Finite b - Finite a = Finite d"
    using assms(4) by (cases "fl (b - a)") (simp_all add: number_minus_Finite)
  show ?thesis
  proof (intro conjI impI)
    show "lerp (Finite 0) (Finite a) (Finite b) = Finite a"
      by (rule lerp_0[OF assms(1) d])
  next
    assume "0 \<le> p" "p \<le> q" "q \<le> 1"
    then show "lerp (Finite p) (Finite a) (Finite b) \<le> lerp (Finite q) (Finite a) (Finite b)"
      by (rule lerp_mono[OF assms(3) d])
  next
    show "lerp (Finite 1) (Finite a) (Finite b) = Finite a + (Finite b - Finite a)"
      by (rule lerp_1[OF d])
  next
    show "map (\<lambda>(lo, hi). lerp (Finite 1) (fl lo) (fl hi)) declaredRanges
        = map (\<lambda>(lo, hi). fl hi) declaredRanges"
      by (rule lerp_declaredRanges)
  qed
qed

theorem lerp_properties_witness:
  "fl (8106479329266893 / 9007199254740992) = Finite (8106479329266893 / 9007199254740992) \<and>
   fl (5404319552844595 / 4503599627370496) = Finite (5404319552844595 / 4503599627370496) \<and>
   (8106479329266893 / 9007199254740992 :: real) \<le> 5404319552844595 / 4503599627370496 \<and>
   Finite (5404319552844595 / 4503599627370496) - Finite (8106479329266893 / 9007199254740992)
     \<noteq> PosInf \<and>
   lerp (Finite 0) (Finite (8106479329266893 / 9007199254740992))
     (Finite (5404319552844595 / 4503599627370496))
     = Finite (8106479329266893 / 9007199254740992) \<and>
   (0 :: real) \<le> 1 / 4 \<and> (1 / 4 :: real) \<le> 1 / 2 \<and> (1 / 2 :: real) \<le> 1 \<and>
   lerp (Finite (1 / 4)) (Finite (8106479329266893 / 9007199254740992))
     (Finite (5404319552844595 / 4503599627370496))
     \<le> lerp (Finite (1 / 2)) (Finite (8106479329266893 / 9007199254740992))
     (Finite (5404319552844595 / 4503599627370496))"
proof -
  have a: "fl (8106479329266893 / 9007199254740992) = Finite (8106479329266893 / 9007199254740992)"
    by (simp add: fl_eval)
  have b: "fl (5404319552844595 / 4503599627370496) = Finite (5404319552844595 / 4503599627370496)"
    by (simp add: fl_eval)
  have le: "(8106479329266893 / 9007199254740992 :: real) \<le> 5404319552844595 / 4503599627370496"
    by simp
  have fin: "Finite (5404319552844595 / 4503599627370496)
      - Finite (8106479329266893 / 9007199254740992) \<noteq> PosInf"
    by (simp add: fl_eval)
  from lerp_properties [OF a b le fin, of "1 / 4" "1 / 2"] a b le fin
  show ?thesis by simp
qed


subsection \<open>The frame callback\<close>

lemma clothLoop_step:
  "clothLoop lib elapsed parameters' windAmplitude basePositions i array =
     (if i < length array then
        clothLoop lib elapsed parameters' windAmplitude basePositions (i + 3)
          (array[i + 2 := clothZ lib elapsed parameters' windAmplitude basePositions i])
      else array)"
  by (subst clothLoop.simps) (simp add: Let_def clothZ_def)

lemma clothLoop_length [simp]:
  "length (clothLoop lib elapsed parameters' windAmplitude basePositions i array) = length array"
proof (induction "length array - i" arbitrary: i array rule: less_induct)
  case less
  show ?case
  proof (cases "i < length array")
    case True
    then have "length (array[i + 2 := clothZ lib elapsed parameters' windAmplitude basePositions i]) - (i + 3)
        < length array - i" by simp
    from less[OF this] True show ?thesis
      by (subst clothLoop_step) simp
  next
    case False
    then show ?thesis by (subst clothLoop_step) simp
  qed
qed

lemma clothLoop_nth:
  "j < length array \<Longrightarrow>
   clothLoop lib elapsed parameters' windAmplitude basePositions i array ! j =
     (if i \<le> j \<and> (j - i) mod 3 = 2
      then clothZ lib elapsed parameters' windAmplitude basePositions (j - 2)
      else array ! j)"
proof (induction "length array - i" arbitrary: i array rule: less_induct)
  case less
  let ?z = "clothZ lib elapsed parameters' windAmplitude basePositions"
  show ?case
  proof (cases "i < length array")
    case True
    let ?a = "array[i + 2 := ?z i]"
    have m: "length ?a - (i + 3) < length array - i" using True by simp
    have j: "j < length ?a" using less.prems by simp
    have "clothLoop lib elapsed parameters' windAmplitude basePositions i array ! j
        = clothLoop lib elapsed parameters' windAmplitude basePositions (i + 3) ?a ! j"
      using True by (subst clothLoop_step) simp
    also have "\<dots> = (if i + 3 \<le> j \<and> (j - (i + 3)) mod 3 = 2 then ?z (j - 2) else ?a ! j)"
      by (rule less.hyps[OF m j])
    also have "\<dots> = (if i \<le> j \<and> (j - i) mod 3 = 2 then ?z (j - 2) else array ! j)"
    proof (cases "j = i + 2")
      case True
      then show ?thesis using less.prems by simp
    next
      case False
      have "(i + 3 \<le> j \<and> (j - (i + 3)) mod 3 = 2) = (i \<le> j \<and> (j - i) mod 3 = 2)"
      proof (cases "i + 3 \<le> j")
        case True
        then obtain k where k: "j = i + 3 + k" using le_Suc_ex by blast
        show ?thesis unfolding k by simp
      next
        case c: False
        then have "j < i \<or> j = i \<or> j = i + 1" using False by linarith
        then show ?thesis using c by auto
      qed
      then show ?thesis using False by simp
    qed
    finally show ?thesis .
  next
    case False
    then show ?thesis using less.prems by (subst clothLoop_step) simp
  qed
qed

lemma clothLoop_agree:
  assumes "agree a b"
  shows "clothLoop lib elapsed parameters' windAmplitude basePositions 0 a
       = clothLoop lib elapsed parameters' windAmplitude basePositions 0 b"
proof (rule nth_equalityI)
  show "length (clothLoop lib elapsed parameters' windAmplitude basePositions 0 a)
      = length (clothLoop lib elapsed parameters' windAmplitude basePositions 0 b)"
    using assms by (simp add: agree_def)
next
  fix j assume "j < length (clothLoop lib elapsed parameters' windAmplitude basePositions 0 a)"
  then have j: "j < length a" "j < length b" using assms by (simp_all add: agree_def)
  show "clothLoop lib elapsed parameters' windAmplitude basePositions 0 a ! j
      = clothLoop lib elapsed parameters' windAmplitude basePositions 0 b ! j"
    using assms j by (simp add: clothLoop_nth agree_def)
qed

lemma clothLoop_closed:
  "clothLoop lib elapsed parameters' windAmplitude basePositions 0 array =
     map (\<lambda>j. if j mod 3 = 2
                then clothZ lib elapsed parameters' windAmplitude basePositions (j - 2)
                else array ! j) [0..<length array]"
  by (rule nth_equalityI) (simp_all add: clothLoop_nth)

lemma agree_clothLoop:
  "agree (clothLoop lib elapsed parameters' windAmplitude basePositions 0 a) a"
  by (simp add: agree_def clothLoop_nth)

lemma agree_refl: "agree a a"
  by (simp add: agree_def)

lemma agree_trans: "agree a b \<Longrightarrow> agree b c \<Longrightarrow> agree a c"
  by (simp add: agree_def)


lemma similar_refl: "similar basePositions s s"
  by (auto simp: similar_def agree_refl split: option.splits)

lemma similar_trans:
  "similar basePositions s s' \<Longrightarrow> similar basePositions s' s'' \<Longrightarrow> similar basePositions s s''"
  by (auto simp: similar_def split: option.splits intro: agree_trans)

lemma similar_sym: "similar basePositions s s' \<Longrightarrow> similar basePositions s' s"
  by (auto simp: similar_def agree_def split: option.splits)

lemma similar_useFrame:
  "similar basePositions (useFrame lib elapsed parameters' basePositions s) s"
  by (auto simp: similar_def useFrame_def Let_def agree_clothLoop agree_refl
      split: option.splits)

lemma similar_frames: "similar basePositions (frames lib history basePositions s) s"
proof (induction history arbitrary: s)
  case Nil
  show ?case by (simp add: similar_refl)
next
  case (Cons a history)
  obtain elapsed parameters' where a: "a = (elapsed, parameters')" by (cases a)
  show ?case unfolding a
    using Cons.IH similar_useFrame similar_trans by (metis frames.simps(2))
qed

lemma useFrame_fields:
  "hairRotation (useFrame lib elapsed parameters' basePositions s) =
     map_option (\<lambda>(x, y, z).
       (Math_cos lib (elapsed * fl 1.2)
          * ((fl 0.08 + hair_length (hair parameters') * fl 0.18) * fl 0.5),
        y,
        Math_sin lib (elapsed * (fl 1.4 + (fl 0.4 + curl (hair parameters') * fl 0.9)))
          * (fl 0.08 + hair_length (hair parameters') * fl 0.18))) (hairRotation s)"
  "positionArray (useFrame lib elapsed parameters' basePositions s) =
     (if basePositions \<noteq> []
      then clothLoop lib elapsed parameters' (fl 0.15 + layering (clothing parameters') * fl 0.2)
             basePositions 0 (positionArray s)
      else positionArray s)"
  "needsUpdate (useFrame lib elapsed parameters' basePositions s) =
     (basePositions \<noteq> [] \<or> needsUpdate s)"
  "normalArray (useFrame lib elapsed parameters' basePositions s) =
     (if basePositions \<noteq> []
      then computeVertexNormals lib
             (clothLoop lib elapsed parameters' (fl 0.15 + layering (clothing parameters') * fl 0.2)
                basePositions 0 (positionArray s))
      else normalArray s)"
  "FrameState.more (useFrame lib elapsed parameters' basePositions s) = FrameState.more s"
  by (auto simp: useFrame_def Let_def split: option.splits)

lemma useFrame_similar:
  assumes "similar basePositions s s'"
  shows "useFrame lib elapsed parameters' basePositions s
       = useFrame lib elapsed parameters' basePositions s'"
proof (rule FrameState.equality)
  have p: "\<And>w. clothLoop lib elapsed parameters' w basePositions 0 (positionArray s)
      = clothLoop lib elapsed parameters' w basePositions 0 (positionArray s')"
    using assms by (auto simp: similar_def intro: clothLoop_agree)
  show "hairRotation (useFrame lib elapsed parameters' basePositions s)
      = hairRotation (useFrame lib elapsed parameters' basePositions s')"
    using assms by (auto simp: useFrame_fields similar_def split: option.splits)
  show "positionArray (useFrame lib elapsed parameters' basePositions s)
      = positionArray (useFrame lib elapsed parameters' basePositions s')"
    using assms by (simp add: useFrame_fields p similar_def)
  show "needsUpdate (useFrame lib elapsed parameters' basePositions s)
      = needsUpdate (useFrame lib elapsed parameters' basePositions s')"
    using assms by (auto simp add: useFrame_fields p similar_def)
  show "normalArray (useFrame lib elapsed parameters' basePositions s)
      = normalArray (useFrame lib elapsed parameters' basePositions s')"
    using assms by (simp add: useFrame_fields p similar_def)
  show "FrameState.more (useFrame lib elapsed parameters' basePositions s)
      = FrameState.more (useFrame lib elapsed parameters' basePositions s')"
    by simp
qed

text \<open>
  Claim C9. A frame's result depends on the elapsed time, the parameter set and the rest
  buffer only. Whatever frames ran before (two histories from the same start), a frame at
  the same elapsed time with the same parameters leaves the same state: the same hair
  rotation and the same cloth positions. Running the frame a second time at the same
  elapsed time changes nothing. The rotations about x and z it writes are given by the
  elapsed time and the parameters alone. Of the cloth it writes the z components, each
  computed from the rest buffer and not from the live buffer, and leaves the x and y
  components as they are; these are the rest buffer's own, the rest buffer being an
  exact copy of the \<^verbatim>\<open>Float32Array\<close> of the new geometry.
\<close>

theorem useFrame_deterministic:
  "useFrame lib elapsed parameters' basePositions (frames lib history basePositions state)
     = useFrame lib elapsed parameters' basePositions (frames lib history' basePositions state) \<and>
   useFrame lib elapsed parameters' basePositions
       (useFrame lib elapsed parameters' basePositions state)
     = useFrame lib elapsed parameters' basePositions state \<and>
   hairRotation (useFrame lib elapsed parameters' basePositions state) =
     map_option (\<lambda>(x, y, z).
       (Math_cos lib (elapsed * fl 1.2)
          * ((fl 0.08 + hair_length (hair parameters') * fl 0.18) * fl 0.5),
        y,
        Math_sin lib (elapsed * (fl 1.4 + (fl 0.4 + curl (hair parameters') * fl 0.9)))
          * (fl 0.08 + hair_length (hair parameters') * fl 0.18))) (hairRotation state) \<and>
   positionArray (useFrame lib elapsed parameters' basePositions state) =
     (if basePositions \<noteq> [] then
        map (\<lambda>j. if j mod 3 = 2
               then clothZ lib elapsed parameters'
                      (fl 0.15 + layering (clothing parameters') * fl 0.2) basePositions (j - 2)
               else positionArray state ! j) [0..<length (positionArray state)]
      else positionArray state) \<and>
   useClothGeometry (map fround planePositions)
     = (map fround planePositions, map fround planePositions)"
proof (intro conjI)
  have "similar basePositions (frames lib history basePositions state)
      (frames lib history' basePositions state)"
    using similar_frames similar_sym similar_trans by blast
  then show "useFrame lib elapsed parameters' basePositions (frames lib history basePositions state)
     = useFrame lib elapsed parameters' basePositions (frames lib history' basePositions state)"
    by (rule useFrame_similar)
next
  show "useFrame lib elapsed parameters' basePositions
       (useFrame lib elapsed parameters' basePositions state)
     = useFrame lib elapsed parameters' basePositions state"
    by (rule useFrame_similar) (rule similar_useFrame)
next
  show "hairRotation (useFrame lib elapsed parameters' basePositions state) =
     map_option (\<lambda>(x, y, z).
       (Math_cos lib (elapsed * fl 1.2)
          * ((fl 0.08 + hair_length (hair parameters') * fl 0.18) * fl 0.5),
        y,
        Math_sin lib (elapsed * (fl 1.4 + (fl 0.4 + curl (hair parameters') * fl 0.9)))
          * (fl 0.08 + hair_length (hair parameters') * fl 0.18))) (hairRotation state)"
    by (rule useFrame_fields)
next
  show "positionArray (useFrame lib elapsed parameters' basePositions state) =
     (if basePositions \<noteq> [] then
        map (\<lambda>j. if j mod 3 = 2
               then clothZ lib elapsed parameters'
                      (fl 0.15 + layering (clothing parameters') * fl 0.2) basePositions (j - 2)
               else positionArray state ! j) [0..<length (positionArray state)]
      else positionArray state)"
    unfolding useFrame_fields(2) by (simp only: clothLoop_closed)
next
  show "useClothGeometry (map fround planePositions)
     = (map fround planePositions, map fround planePositions)"
    by (simp add: useClothGeometry_def fround_idem)
qed

theorem useFrame_deterministic_witness:
  "positionArray exampleFrameState = [Finite 0, Finite 0, Finite 5] \<and>
   positionArray (useFrame exampleFrameLib (Finite 1) defaultParameters
       [Finite 0, Finite 0, Finite 0] exampleFrameState)
     = [Finite 0, Finite 0, Finite (5368709 / 268435456)]"
proof -
  have u: "[0..<3] = [0, 1, 2]" by code_simp
  have z: "clothZ exampleFrameLib (Finite 1) defaultParameters
      (fl 0.15 + layering (clothing defaultParameters) * fl 0.2)
      [Finite 0, Finite 0, Finite 0] 0 = Finite (5368709 / 268435456)"
    by (simp add: exampleFrameLib_def clothZ_def element_at_def defaultParameters_def fl_eval)
  have s: "positionArray exampleFrameState = [Finite 0, Finite 0, Finite 5]"
    by (simp add: exampleFrameState_def)
  show ?thesis
    using z useFrame_deterministic [of exampleFrameLib "Finite 1" defaultParameters
      "[Finite 0, Finite 0, Finite 0]" "[]" exampleFrameState "[]" "[]"]
    by (simp add: s u)
qed

end
